theory Spec2Isabelle
  imports Main "HOL-Library.AList" "HOL-Library.Word"
begin

section \<open>Errors and strings\<close>

text \<open>
  Go functions return their failures as values of type \<open>error\<close>; \<open>nil\<close> is \<open>None\<close>.
  The constructors name the failures the modelled code can return or receive from
  the operating system, from \<open>path/filepath\<close> and from the embedded database.
\<close>

datatype error =
    ErrExist
  | ErrNotExist
  | ErrIO string
  | ErrBadPattern
  | ErrRecordNotFound
  | ErrDB string
  | ErrInvalidPair string
  | ErrLengthLimit
  | ErrNotSupportPlugin string
  | ErrAlloc string

text \<open>
  \<open>strings.Split(s, sep)\<close> for a one-byte separator: the substrings between the
  separators, so \<open>Count(s, sep) + 1\<close> of them, and \<open>[""]\<close> for the empty string.
\<close>

fun Split :: "string \<Rightarrow> char \<Rightarrow> string list" where
  "Split [] c = [[]]"
| "Split (x # xs) c =
     (if x = c then [] # Split xs c
      else (case Split xs c of [] \<Rightarrow> [[x]] | y # ys \<Rightarrow> (x # y) # ys))"

text \<open>\<open>strings.Count(s, sep)\<close> for a one-byte separator.\<close>

definition Count :: "string \<Rightarrow> char \<Rightarrow> nat" where
  "Count s c = length (filter (\<lambda>x. x = c) s)"

text \<open>
  \<open>strings.TrimSpace\<close>. Go strings are byte sequences read as UTF-8, and a
  white-space rune is one of the code points of \<open>unicode.IsSpace\<close>: the six ASCII
  ones, U+0085, U+00A0, U+1680, U+2000 to U+200A, U+2028, U+2029, U+202F, U+205F and
  U+3000. \<open>spaceRunes\<close> lists their UTF-8 encodings.
\<close>

definition spaceRunes :: "string list" where
  "spaceRunes =
     [[CHR 0x09], [CHR 0x0A], [CHR 0x0B], [CHR 0x0C], [CHR 0x0D], [CHR 0x20],
      [CHR 0xC2, CHR 0x85], [CHR 0xC2, CHR 0xA0], [CHR 0xE1, CHR 0x9A, CHR 0x80],
      [CHR 0xE2, CHR 0x80, CHR 0x80], [CHR 0xE2, CHR 0x80, CHR 0x81],
      [CHR 0xE2, CHR 0x80, CHR 0x82], [CHR 0xE2, CHR 0x80, CHR 0x83],
      [CHR 0xE2, CHR 0x80, CHR 0x84], [CHR 0xE2, CHR 0x80, CHR 0x85],
      [CHR 0xE2, CHR 0x80, CHR 0x86], [CHR 0xE2, CHR 0x80, CHR 0x87],
      [CHR 0xE2, CHR 0x80, CHR 0x88], [CHR 0xE2, CHR 0x80, CHR 0x89],
      [CHR 0xE2, CHR 0x80, CHR 0x8A], [CHR 0xE2, CHR 0x80, CHR 0xA8],
      [CHR 0xE2, CHR 0x80, CHR 0xA9], [CHR 0xE2, CHR 0x80, CHR 0xAF],
      [CHR 0xE2, CHR 0x81, CHR 0x9F], [CHR 0xE3, CHR 0x80, CHR 0x80]]"

text \<open>The byte length of the white-space rune a string starts with, 0 when it starts with none.\<close>

definition leadingSpace :: "string \<Rightarrow> nat" where
  "leadingSpace s =
     (case find (\<lambda>r. take (length r) s = r) spaceRunes of None \<Rightarrow> 0 | Some r \<Rightarrow> length r)"

lemma leadingSpace_le: "leadingSpace s \<le> length s"
proof (cases "find (\<lambda>r. take (length r) s = r) spaceRunes")
  case None
  then show ?thesis by (simp add: leadingSpace_def)
next
  case (Some r)
  then have "take (length r) s = r" by (auto simp: find_Some_iff)
  then have "length (take (length r) s) = length r" by simp
  then have "length r \<le> length s" by simp
  with Some show ?thesis by (simp add: leadingSpace_def)
qed

function TrimLeft :: "string \<Rightarrow> string" where
  "TrimLeft s = (if leadingSpace s = 0 then s else TrimLeft (drop (leadingSpace s) s))"
  by pat_completeness auto
termination
proof (relation "measure length")
  show "wf (measure length)" by simp
next
  fix s :: string
  assume "leadingSpace s \<noteq> 0"
  with leadingSpace_le [of s] show "(drop (leadingSpace s) s, s) \<in> measure length"
    by simp
qed

declare TrimLeft.simps [simp del]

text \<open>
  The byte length of the white-space rune a string ends with, 0 when it ends with none;
  \<open>TrimRight\<close> removes such runes from the end until none is left.
\<close>

definition trailingSpace :: "string \<Rightarrow> nat" where
  "trailingSpace s =
     (case find (\<lambda>r. drop (length s - length r) s = r) spaceRunes of
        None \<Rightarrow> 0 | Some r \<Rightarrow> length r)"

lemma trailingSpace_le: "trailingSpace s \<le> length s"
proof (cases "find (\<lambda>r. drop (length s - length r) s = r) spaceRunes")
  case None
  then show ?thesis by (simp add: trailingSpace_def)
next
  case (Some r)
  then have "drop (length s - length r) s = r" by (auto simp: find_Some_iff)
  then have "length (drop (length s - length r) s) = length r" by simp
  then have "length r \<le> length s" by simp
  with Some show ?thesis by (simp add: trailingSpace_def)
qed

function TrimRight :: "string \<Rightarrow> string" where
  "TrimRight s =
     (if trailingSpace s = 0 then s else TrimRight (take (length s - trailingSpace s) s))"
  by pat_completeness auto
termination
proof (relation "measure length")
  show "wf (measure length)" by simp
next
  fix s :: string
  assume "trailingSpace s \<noteq> 0"
  with trailingSpace_le [of s]
  show "(take (length s - trailingSpace s) s, s) \<in> measure length"
    by simp
qed

declare TrimRight.simps [simp del]

definition TrimSpace :: "string \<Rightarrow> string" where
  "TrimSpace s = TrimRight (TrimLeft s)"

section \<open>pkg/utils/env\_args.go\<close>

text \<open>
  The loop of \<open>ResolvePodNSAndNameFromEnvArgs\<close> over the pairs, with the
  values of \<open>ns\<close> and \<open>name\<close> so far. It returns at the first pair that does not split
  on \<open>=\<close> into two parts, with the values resolved until then.
\<close>

fun resolvePairs :: "string list \<Rightarrow> string \<Rightarrow> string \<Rightarrow> string \<times> string \<times> error option" where
  "resolvePairs [] ns name = (ns, name, None)"
| "resolvePairs (pair # pairs) ns name =
     (let kv = Split pair (CHR ''='') in
      if length kv \<noteq> 2 then (ns, name, Some (ErrInvalidPair pair))
      else if kv ! 0 = ''K8S_POD_NAMESPACE'' then resolvePairs pairs (kv ! 1) name
      else if kv ! 0 = ''K8S_POD_NAME'' then resolvePairs pairs ns (kv ! 1)
      else resolvePairs pairs ns name)"

definition ResolvePodNSAndNameFromEnvArgs :: "string \<Rightarrow> string \<times> string \<times> error option" where
  "ResolvePodNSAndNameFromEnvArgs envArgs =
     (if envArgs = [] then ([], [], None)
      else case resolvePairs (Split envArgs (CHR '';'')) [] [] of
          (ns, name, Some e) \<Rightarrow> (ns, name, Some e)
        | (ns, name, None) \<Rightarrow>
            if 230 < length ns + length name then ([], [], Some ErrLengthLimit)
            else (ns, name, None))"

section \<open>The data directory and the file-system calls\<close>

text \<open>
  A store's data directory \<open>dataDir\<close> holds regular files only; it is modelled as an
  association list from file name (relative to \<open>dataDir\<close>) to content, with at most one
  entry per name. The calls below are the ones the stores make. A call that can fail for
  a reason outside the directory's content (permissions, a full disk) takes a fault: the
  error the operating system returns to this call, \<open>None\<close> when it lets the call proceed.
\<close>

type_synonym dir = "(string \<times> string) list"

text \<open>
  \<open>os.OpenFile(fname, O_RDWR|O_EXCL|O_CREATE, 0644)\<close>: an existing file is reported as
  \<open>ErrExist\<close>; otherwise the file is created empty unless the call fails.
\<close>

definition OpenFileExcl :: "dir \<Rightarrow> string \<Rightarrow> error option \<Rightarrow> dir \<times> error option" where
  "OpenFileExcl d fname fault =
     (if map_of d fname \<noteq> None then (d, Some ErrExist)
      else case fault of
          Some e \<Rightarrow> (d, Some e)
        | None \<Rightarrow> (AList.update fname [] d, None))"

text \<open>
  \<open>f.WriteString(s)\<close> on a file just created: a failing write has written the first
  \<open>n\<close> bytes of \<open>s\<close>.
\<close>

definition WriteString :: "dir \<Rightarrow> string \<Rightarrow> string \<Rightarrow> (nat \<times> error) option \<Rightarrow> dir \<times> error option" where
  "WriteString d fname s fault =
     (case fault of
        None \<Rightarrow> (AList.update fname s d, None)
      | Some (n, e) \<Rightarrow> (AList.update fname (take n s) d, Some e))"

text \<open>
  \<open>os.Remove(fname)\<close>: a failing call leaves the directory as it was; a file that does
  not exist is reported as \<open>ErrNotExist\<close>.
\<close>

definition Remove :: "dir \<Rightarrow> string \<Rightarrow> error option \<Rightarrow> dir \<times> error option" where
  "Remove d fname fault =
     (case fault of
        Some e \<Rightarrow> (d, Some e)
      | None \<Rightarrow>
          if map_of d fname = None then (d, Some ErrNotExist)
          else (AList.delete fname d, None))"

text \<open>
  \<open>ioutil.WriteFile(fname, data, 0644)\<close> creates or truncates the file and writes
  \<open>data\<close>. A fault \<open>(None, e)\<close> is a failure to open the file, which leaves the directory
  as it was; a fault \<open>(Some n, e)\<close> is a write that failed after \<open>n\<close> bytes.
\<close>

definition WriteFile :: "dir \<Rightarrow> string \<Rightarrow> string \<Rightarrow> (nat option \<times> error) option \<Rightarrow> dir \<times> error option" where
  "WriteFile d fname data fault =
     (case fault of
        None \<Rightarrow> (AList.update fname data d, None)
      | Some (None, e) \<Rightarrow> (d, Some e)
      | Some (Some n, e) \<Rightarrow> (AList.update fname (take n data) d, Some e))"


section \<open>plugins/ipam/host-local/backend/disk/backend.go: reservations\<close>

text \<open>
  A \<open>net.IP\<close> enters the stores through two observations: its text \<open>ip.String()\<close> and
  its family \<open>ip.To4() != nil\<close>. The model keeps these two; a nil \<open>net.IP\<close> is \<open>None\<close>
  of \<open>IP option\<close>.
\<close>

datatype IP = IP (IP_String: string) (IP_To4: bool)

definition lastIPFilePrefix :: string where
  "lastIPFilePrefix = ''last_reserved_ip.''"

definition LineBreak :: string where
  "LineBreak = [CHR 0x0D, CHR 0x0A]"

text \<open>
  \<open>GetEscapedPath(dataDir, fname)\<close>; \<open>windows\<close> is \<open>runtime.GOOS == "windows"\<close>. The
  result is the file's name in the data directory.
\<close>

definition GetEscapedPath :: "bool \<Rightarrow> string \<Rightarrow> string" where
  "GetEscapedPath windows fname =
     (if windows then map (\<lambda>c. if c = CHR '':'' then CHR ''_'' else c) fname else fname)"

text \<open>
  The faults of one call of \<open>Reserve\<close>, one for each call it makes that can fail.
  \<open>Reserve\<close> discards the result of its \<open>os.Remove\<close>: only the directory that call
  leaves is kept.
\<close>

record reserve_faults =
  openFault :: "error option"
  writeFault :: "(nat \<times> error) option"
  closeFault :: "error option"
  removeFault :: "error option"
  lastIPFault :: "(nat option \<times> error) option"

definition Reserve ::
  "bool \<Rightarrow> dir \<Rightarrow> string \<Rightarrow> string \<Rightarrow> IP \<Rightarrow> string \<Rightarrow> reserve_faults \<Rightarrow> dir \<times> bool \<times> error option" where
  "Reserve windows d cid ifname ip rangeID flt =
     (let fname = GetEscapedPath windows (IP_String ip) in
      case OpenFileExcl d fname (openFault flt) of
        (d0, Some e) \<Rightarrow> if e = ErrExist then (d0, False, None) else (d0, False, Some e)
      | (d1, None) \<Rightarrow>
          (case WriteString d1 fname (TrimSpace cid @ LineBreak @ ifname) (writeFault flt) of
             (d2, Some e) \<Rightarrow> (fst (Remove d2 fname (removeFault flt)), False, Some e)
           | (d2, None) \<Rightarrow>
               (case closeFault flt of
                  Some e \<Rightarrow> (fst (Remove d2 fname (removeFault flt)), False, Some e)
                | None \<Rightarrow>
                    (let ipfile = GetEscapedPath windows (lastIPFilePrefix @ rangeID) in
                     case WriteFile d2 ipfile (IP_String ip) (lastIPFault flt) of
                       (d3, Some e) \<Rightarrow> (d3, False, Some e)
                     | (d3, None) \<Rightarrow> (d3, True, None)))))"

definition Release :: "bool \<Rightarrow> dir \<Rightarrow> IP \<Rightarrow> error option \<Rightarrow> dir \<times> error option" where
  "Release windows d ip fault = Remove d (GetEscapedPath windows (IP_String ip)) fault"

text \<open>
  \<open>FindByKey\<close> walks the data directory; the callback sets \<open>found\<close> at every file whose
  trimmed content is \<open>match\<close> and never returns an error, so the walk returns none.
\<close>

primrec walkFind :: "dir \<Rightarrow> string \<Rightarrow> bool \<Rightarrow> bool" where
  "walkFind [] match found = found"
| "walkFind (f # fs) match found =
     walkFind fs match (if TrimSpace (snd f) = match then True else found)"

definition FindByKey :: "dir \<Rightarrow> string \<Rightarrow> string \<Rightarrow> string \<Rightarrow> bool \<times> error option" where
  "FindByKey d cid ifname match = (walkFind d match False, None)"

text \<open>\<open>FindByID\<close> holds the store's lock for the call; one call is one step of the model.\<close>

definition FindByID :: "dir \<Rightarrow> string \<Rightarrow> string \<Rightarrow> bool" where
  "FindByID d cid ifname =
     (let match = TrimSpace cid @ LineBreak @ ifname in
      case FindByKey d cid ifname match of
        (found, err) \<Rightarrow>
          if \<not> found \<and> err = None then fst (FindByKey d cid ifname (TrimSpace cid))
          else found)"

section \<open>File-name patterns\<close>

text \<open>
  \<open>filepath.Match(pattern, name)\<close> belongs to Go's library; the stores are modelled
  for any such function, a \<open>matcher\<close>, which returns whether the name matches or the
  error of a malformed pattern.
\<close>

type_synonym matcher = "string \<Rightarrow> string \<Rightarrow> error + bool"

text \<open>
  \<open>filepath.Glob(pattern)\<close> in the data directory: the pattern is checked against the
  empty name first, then every name of the directory is matched, and the first error
  ends the search. (Go returns the matches sorted; the stores use them only when there
  is exactly one.)
\<close>

primrec globNames :: "matcher \<Rightarrow> string \<Rightarrow> string list \<Rightarrow> error + string list" where
  "globNames Match pattern [] = Inr []"
| "globNames Match pattern (n # ns) =
     (case Match pattern n of
        Inl e \<Rightarrow> Inl e
      | Inr matched \<Rightarrow>
          (case globNames Match pattern ns of
             Inl e \<Rightarrow> Inl e
           | Inr m \<Rightarrow> Inr (if matched then n # m else m)))"

definition Glob :: "matcher \<Rightarrow> dir \<Rightarrow> string \<Rightarrow> error + string list" where
  "Glob Match d pattern =
     (case Match pattern [] of
        Inl e \<Rightarrow> Inl e
      | Inr _ \<Rightarrow> globNames Match pattern (map fst d))"

text \<open>
  The matcher on the patterns whose only metacharacter is \<open>*\<close>, which matches any
  sequence of characters other than the separator \<open>/\<close>; every other character of the
  pattern matches itself. On a pattern without \<open>?\<close>, \<open>[\<close> and the backslash this is what
  \<open>filepath.Match\<close> computes, and such a pattern is never malformed.
\<close>

fun starMatch :: "string \<Rightarrow> string \<Rightarrow> bool" where
  "starMatch [] [] = True"
| "starMatch [] (c # cs) = False"
| "starMatch (p # ps) [] = (p = CHR ''*'' \<and> starMatch ps [])"
| "starMatch (p # ps) (c # cs) =
     (if p = CHR ''*'' then starMatch ps (c # cs) \<or> (c \<noteq> CHR ''/'' \<and> starMatch (p # ps) cs)
      else p = c \<and> starMatch ps cs)"

definition Match_star :: matcher where
  "Match_star pattern name = Inr (starMatch pattern name)"

section \<open>plugins/ipam/host-local/backend/disk/backend.go: the pod-to-address files\<close>


definition disk_resolvePodFileName :: "string \<Rightarrow> string \<times> string \<times> string" where
  "disk_resolvePodFileName fName =
     (let parts = Split fName (CHR ''_'') in
      if length parts = 4 then (parts ! 1, parts ! 2, parts ! 3) else ([], [], []))"

definition disk_findPodFileName ::
  "matcher \<Rightarrow> bool \<Rightarrow> dir \<Rightarrow> string \<Rightarrow> string \<Rightarrow> string \<Rightarrow> string \<times> error option" where
  "disk_findPodFileName Match windows d ip ns name =
     (case (if ip \<noteq> [] then Some (''ip_'' @ ip @ ''_*'')
            else if ns \<noteq> [] \<and> name \<noteq> [] then Some (''ip_*_'' @ ns @ ''_'' @ name)
            else None) of
        None \<Rightarrow> ([], None)
      | Some pattern \<Rightarrow>
          (case Glob Match d (GetEscapedPath windows pattern) of
             Inl e \<Rightarrow> ([], Some e)
           | Inr podFiles \<Rightarrow>
               if length podFiles = 1 \<and> Count (podFiles ! 0) (CHR ''_'') = 3
               then (podFiles ! 0, None) else ([], None)))"

text \<open>
  \<open>HasReservedIP\<close>; \<open>ParseIP\<close> is \<open>net.ParseIP\<close>, with \<open>None\<close> for nil. The address
  returned with \<open>false\<close> is empty or nil: \<open>None\<close>.
\<close>

definition HasReservedIP ::
  "matcher \<Rightarrow> (string \<Rightarrow> IP option) \<Rightarrow> bool \<Rightarrow> dir \<Rightarrow> string \<Rightarrow> string \<Rightarrow> bool \<times> IP option" where
  "HasReservedIP Match ParseIP windows d podNs podName =
     (if podName = [] then (False, None)
      else case disk_findPodFileName Match windows d [] podNs podName of
          (_, Some e) \<Rightarrow> (False, None)
        | (podIPNsNameFileName, None) \<Rightarrow>
            if podIPNsNameFileName \<noteq> [] then
              (case disk_resolvePodFileName podIPNsNameFileName of
                 (ipStr, ns, name) \<Rightarrow>
                   if ns = podNs \<and> name = podName then
                     (case ParseIP ipStr of Some ip \<Rightarrow> (True, Some ip) | None \<Rightarrow> (False, None))
                   else (False, None))
            else (False, None))"


section \<open>plugins/main/bridge/store.go: the pod-to-MAC files\<close>


text \<open>\<open>strings.ReplaceAll(mac, ":", "-")\<close>.\<close>

definition macDashes :: "string \<Rightarrow> string" where
  "macDashes mac = map (\<lambda>c. if c = CHR '':'' then CHR ''-'' else c) mac"


definition bridge_resolvePodFileName :: "string \<Rightarrow> string \<times> string \<times> string" where
  "bridge_resolvePodFileName fName =
     (let parts = Split fName (CHR ''_'') in
      if length parts = 4 then (parts ! 1, parts ! 2, parts ! 3) else ([], [], []))"

definition bridge_findPodFileName ::
  "matcher \<Rightarrow> bool \<Rightarrow> dir \<Rightarrow> string \<Rightarrow> string \<Rightarrow> string \<Rightarrow> string \<times> error option" where
  "bridge_findPodFileName Match windows d mac ns name =
     (case (if mac \<noteq> [] then Some (''mac_'' @ macDashes mac @ ''_*'')
            else if ns \<noteq> [] \<and> name \<noteq> [] then Some (''mac_*_'' @ ns @ ''_'' @ name)
            else None) of
        None \<Rightarrow> ([], None)
      | Some pattern \<Rightarrow>
          (case Glob Match d (GetEscapedPath windows pattern) of
             Inl e \<Rightarrow> ([], Some e)
           | Inr podFiles \<Rightarrow>
               if length podFiles = 1 \<and> Count (podFiles ! 0) (CHR ''_'') = 3
               then (podFiles ! 0, None) else ([], None)))"

text \<open>
  \<open>hasReservedMAC\<close>; a \<open>net.HardwareAddr\<close> is a sequence of bytes, and \<open>ParseMAC\<close> is
  \<open>net.ParseMAC\<close>.
\<close>

type_synonym HardwareAddr = "8 word list"

definition hasReservedMAC ::
  "matcher \<Rightarrow> (string \<Rightarrow> error + HardwareAddr) \<Rightarrow> bool \<Rightarrow> dir \<Rightarrow> string \<Rightarrow> string \<Rightarrow>
   HardwareAddr option \<times> error option" where
  "hasReservedMAC Match ParseMAC windows d podNS podName =
     (if podName = [] then (None, None)
      else case bridge_findPodFileName Match windows d [] podNS podName of
          (_, Some e) \<Rightarrow> (None, Some e)
        | (podFileName, None) \<Rightarrow>
            if podFileName \<noteq> [] then
              (case bridge_resolvePodFileName podFileName of
                 (mac, ns, name) \<Rightarrow>
                   if ns = podNS \<and> name = podName then
                     (case ParseMAC mac of Inl e \<Rightarrow> (None, None) | Inr hw \<Rightarrow> (Some hw, None))
                   else (None, None))
            else (None, None))"


section \<open>pkg/database/database.go\<close>

text \<open>
  The embedded database holds one table per plugin. A table is the list of its rows in
  the order of their row ids, together with the last id the table has given out.
  A \<open>time.Time\<close> is the number of nanoseconds since the zero time, so that the zero
  time is 0; a \<open>time.Duration\<close> is a signed 64-bit number of nanoseconds.
\<close>

record BaseModel =
  ID :: nat
  Namespace :: string
  Name :: string
  Deleted :: bool
  CreatedAt :: int
  UpdatedAt :: int

record ReservedIP = BaseModel +
  IPv4 :: string
  IPv6 :: string

record ReservedMAC = BaseModel +
  MAC :: string

record 'r table =
  rows :: "'r list"
  lastID :: nat

definition zeroReservedIP :: ReservedIP where
  "zeroReservedIP = \<lparr>ID = 0, Namespace = [], Name = [], Deleted = False, CreatedAt = 0,
     UpdatedAt = 0, IPv4 = [], IPv6 = []\<rparr>"

definition zeroReservedMAC :: ReservedMAC where
  "zeroReservedMAC = \<lparr>ID = 0, Namespace = [], Name = [], Deleted = False, CreatedAt = 0,
     UpdatedAt = 0, MAC = []\<rparr>"

definition PluginBridge :: string where
  "PluginBridge = ''bridge''"

definition PluginHostLocal :: string where
  "PluginHostLocal = ''host-local''"

definition IsNotFoundErr :: "error \<Rightarrow> bool" where
  "IsNotFoundErr err = (err = ErrRecordNotFound)"

text \<open>
  \<open>OpenDB\<close>: an unsupported plugin is refused; otherwise the fault is the error of
  creating the directory or of opening the database file.
\<close>

definition OpenDB :: "string \<Rightarrow> string \<Rightarrow> string \<Rightarrow> error option \<Rightarrow> error option" where
  "OpenDB network dataDir pluginName fault =
     (if pluginName \<noteq> PluginBridge \<and> pluginName \<noteq> PluginHostLocal
      then Some (ErrNotSupportPlugin pluginName)
      else fault)"

text \<open>
  \<open>db.Take(&row, "namespace = ? and name = ?", podNS, podName)\<close>: the first row of the
  identity, or the record-not-found error with the row left at its zero value.
\<close>

definition Take ::
  "'a BaseModel_scheme \<Rightarrow> 'a BaseModel_scheme table \<Rightarrow> string \<Rightarrow> string \<Rightarrow> error option \<Rightarrow>
   'a BaseModel_scheme \<times> error option" where
  "Take zero t podNS podName fault =
     (case fault of
        Some e \<Rightarrow> (zero, Some e)
      | None \<Rightarrow>
          (case find (\<lambda>r. Namespace r = podNS \<and> Name r = podName) (rows t) of
             None \<Rightarrow> (zero, Some ErrRecordNotFound)
           | Some r \<Rightarrow> (r, None)))"

text \<open>
  \<open>db.Save(row)\<close> at time \<open>now\<close>: a row without primary key is inserted under the
  next id, with the zero timestamps set to \<open>now\<close>; a row with a primary key replaces the
  row of that id, with \<open>UpdatedAt\<close> set to \<open>now\<close>, and is inserted when there is none.
\<close>

definition Save ::
  "int \<Rightarrow> 'a BaseModel_scheme table \<Rightarrow> 'a BaseModel_scheme \<Rightarrow> error option \<Rightarrow>
   'a BaseModel_scheme table \<times> error option" where
  "Save now t r fault =
     (case fault of
        Some e \<Rightarrow> (t, Some e)
      | None \<Rightarrow>
          if ID r = 0 then
            (\<lparr>rows = rows t @
                 [r\<lparr>ID := lastID t + 1,
                    CreatedAt := (if CreatedAt r = 0 then now else CreatedAt r),
                    UpdatedAt := (if UpdatedAt r = 0 then now else UpdatedAt r)\<rparr>],
              lastID = lastID t + 1\<rparr>, None)
          else if list_ex (\<lambda>x. ID x = ID r) (rows t) then
            (t\<lparr>rows := map (\<lambda>x. if ID x = ID r then r\<lparr>UpdatedAt := now\<rparr> else x) (rows t)\<rparr>, None)
          else
            (\<lparr>rows = rows t @ [r\<lparr>UpdatedAt := now\<rparr>], lastID = max (lastID t) (ID r)\<rparr>, None))"

definition Hour :: "64 word" where
  "Hour = 3600000000000"

text \<open>
  \<open>time.Now().Add(-time.Duration(days) * 24 * time.Hour)\<close>: the product is computed in
  64-bit two's complement and wraps around; adding a duration to a time does not.
\<close>

definition expiryEnd :: "int \<Rightarrow> 64 word \<Rightarrow> int" where
  "expiryEnd now days = now + sint (- days * 24 * Hour)"

text \<open>A day in nanoseconds.\<close>

definition dayNs :: int where
  "dayNs = 86400000000000"

text \<open>
  \<open>db.Delete(&row, "deleted = ? and updated_at < ?", true, end)\<close> removes the rows that
  satisfy the condition.
\<close>

definition Delete ::
  "'a BaseModel_scheme table \<Rightarrow> int \<Rightarrow> error option \<Rightarrow> 'a BaseModel_scheme table \<times> error option" where
  "Delete t end fault =
     (case fault of
        Some e \<Rightarrow> (t, Some e)
      | None \<Rightarrow> (t\<lparr>rows := filter (\<lambda>r. \<not> (Deleted r \<and> UpdatedAt r < end)) (rows t)\<rparr>, None))"

definition GetReservedIP ::
  "ReservedIP table \<Rightarrow> string \<Rightarrow> string \<Rightarrow> error option \<Rightarrow> ReservedIP \<times> error option" where
  "GetReservedIP t podNS podName fault = Take zeroReservedIP t podNS podName fault"

definition ReserveIP ::
  "int \<Rightarrow> ReservedIP table \<Rightarrow> ReservedIP \<Rightarrow> error option \<Rightarrow> ReservedIP table \<times> error option" where
  "ReserveIP now t ip fault = Save now t ip fault"

definition PurgeExpiredIPs ::
  "int \<Rightarrow> ReservedIP table \<Rightarrow> 64 word \<Rightarrow> error option \<Rightarrow> ReservedIP table \<times> error option" where
  "PurgeExpiredIPs now t days fault = Delete t (expiryEnd now days) fault"

definition GetReservedMAC ::
  "ReservedMAC table \<Rightarrow> string \<Rightarrow> string \<Rightarrow> error option \<Rightarrow> ReservedMAC \<times> error option" where
  "GetReservedMAC t podNS podName fault = Take zeroReservedMAC t podNS podName fault"

definition ReserveMAC ::
  "int \<Rightarrow> ReservedMAC table \<Rightarrow> ReservedMAC \<Rightarrow> error option \<Rightarrow> ReservedMAC table \<times> error option" where
  "ReserveMAC now t mac fault = Save now t mac fault"

definition PurgeExpiredMACs ::
  "int \<Rightarrow> ReservedMAC table \<Rightarrow> 64 word \<Rightarrow> error option \<Rightarrow> ReservedMAC table \<times> error option" where
  "PurgeExpiredMACs now t days fault = Delete t (expiryEnd now days) fault"

section \<open>plugins/ipam/host-local/backend/allocator/allocator\_ext.go\<close>

text \<open>
  The functions below log database errors and go on; the log has no part in what they
  return and is left out. \<open>isIPv4\<close> is the family of the configured range set,
  \<open>rangeset[0].Subnet.IP.To4() != nil\<close>. Each database call takes its own fault.
\<close>

definition getIP ::
  "(string \<Rightarrow> IP option) \<Rightarrow> bool \<Rightarrow> ReservedIP table \<Rightarrow> string \<Rightarrow> string \<Rightarrow> string \<Rightarrow> string \<Rightarrow>
   error option \<Rightarrow> error option \<Rightarrow> IP option" where
  "getIP ParseIP isIPv4 t podNS podName network dataDir fOpen fGet =
     (if podName = [] then None
      else case OpenDB network dataDir PluginHostLocal fOpen of
          Some err \<Rightarrow> None
        | None \<Rightarrow>
            (case GetReservedIP t podNS podName fGet of
               (reservedIP, None) \<Rightarrow>
                 if isIPv4 then ParseIP (IPv4 reservedIP) else ParseIP (IPv6 reservedIP)
             | (reservedIP, Some err) \<Rightarrow> if IsNotFoundErr err then None else None))"

definition saveIP ::
  "int \<Rightarrow> ReservedIP table \<Rightarrow> string \<Rightarrow> string \<Rightarrow> string \<Rightarrow> string \<Rightarrow> IP \<Rightarrow>
   error option \<Rightarrow> error option \<Rightarrow> error option \<Rightarrow> ReservedIP table" where
  "saveIP now t podNS podName network dataDir ip fOpen fGet fSave =
     (if podName = [] then t
      else case OpenDB network dataDir PluginHostLocal fOpen of
          Some err \<Rightarrow> t
        | None \<Rightarrow>
            (case GetReservedIP t podNS podName fGet of
               (reservedIP, err) \<Rightarrow>
                 if (case err of Some e \<Rightarrow> \<not> IsNotFoundErr e | None \<Rightarrow> False) then t
                 else
                   (let r = reservedIP\<lparr>Namespace := podNS, Name := podName, Deleted := False\<rparr>;
                        r' = (if IP_To4 ip then r\<lparr>IPv4 := IP_String ip\<rparr>
                              else r\<lparr>IPv6 := IP_String ip\<rparr>)
                    in fst (ReserveIP now t r' fSave))))"

text \<open>
  The result of an allocation, \<open>current.IPConfig\<close>, and the faults of the five database
  calls one \<open>GetIP\<close> makes: two in \<open>getIP\<close>, three in \<open>saveIP\<close>.
\<close>

record IPConfig =
  Address_IP :: IP
  Gateway :: "IP option"

record getip_faults =
  lookupOpen :: "error option"
  lookupGet :: "error option"
  saveOpen :: "error option"
  saveGet :: "error option"
  saveSave :: "error option"

text \<open>
  \<open>GetIP\<close>, under the store's lock. \<open>Get\<close> is the allocator's \<open>a.Get\<close>, which works on
  the flat-file store: it takes the owner id, the interface name and the requested
  address and returns the directory it leaves and its result.
\<close>

definition GetIP ::
  "(string \<Rightarrow> string \<Rightarrow> IP option \<Rightarrow> dir \<Rightarrow> dir \<times> (error + IPConfig)) \<Rightarrow>
   (string \<Rightarrow> IP option) \<Rightarrow> bool \<Rightarrow> int \<Rightarrow> dir \<Rightarrow> ReservedIP table \<Rightarrow>
   string \<Rightarrow> string \<Rightarrow> string \<Rightarrow> string \<Rightarrow> string \<Rightarrow> IP option \<Rightarrow> getip_faults \<Rightarrow>
   dir \<times> ReservedIP table \<times> (error + IPConfig)" where
  "GetIP Get ParseIP isIPv4 now d t network dataDir envArgs cid ifname requestedIP flt =
     (case ResolvePodNSAndNameFromEnvArgs envArgs of
        (podNS, podName, err) \<Rightarrow>
          if podName = [] then
            (case Get cid ifname requestedIP d of (d', res) \<Rightarrow> (d', t, res))
          else
            (let knownIP0 = getIP ParseIP isIPv4 t podNS podName network dataDir
                              (lookupOpen flt) (lookupGet flt);
                 knownIP = (case knownIP0 of None \<Rightarrow> requestedIP | Some k \<Rightarrow> Some k)
             in case Get cid ifname knownIP d of
                  (d', Inl err) \<Rightarrow> (d', t, Inl err)
                | (d', Inr ipCfg) \<Rightarrow>
                    (d', saveIP now t podNS podName network dataDir (Address_IP ipCfg)
                           (saveOpen flt) (saveGet flt) (saveSave flt), Inr ipCfg)))"

definition ReleaseExpiredIPs ::
  "int \<Rightarrow> ReservedIP table \<Rightarrow> string \<Rightarrow> string \<Rightarrow> 64 word \<Rightarrow> error option \<Rightarrow> error option \<Rightarrow>
   ReservedIP table" where
  "ReleaseExpiredIPs now t network dataDir expirationDays fOpen fPurge =
     (if expirationDays = 0 then t
      else case OpenDB network dataDir PluginHostLocal fOpen of
          Some err \<Rightarrow> t
        | None \<Rightarrow> fst (PurgeExpiredIPs now t expirationDays fPurge))"

definition markDeletedIP ::
  "int \<Rightarrow> ReservedIP table \<Rightarrow> string \<Rightarrow> string \<Rightarrow> string \<Rightarrow>
   error option \<Rightarrow> error option \<Rightarrow> error option \<Rightarrow> ReservedIP table" where
  "markDeletedIP now t network dataDir envArgs fOpen fGet fSave =
     (case ResolvePodNSAndNameFromEnvArgs envArgs of
        (podNS, podName, err) \<Rightarrow>
          if podName = [] then t
          else case OpenDB network dataDir PluginHostLocal fOpen of
              Some err \<Rightarrow> t
            | None \<Rightarrow>
                (case GetReservedIP t podNS podName fGet of
                   (reservedIP, None) \<Rightarrow>
                     fst (ReserveIP now t (reservedIP\<lparr>Deleted := True\<rparr>) fSave)
                 | (reservedIP, Some err) \<Rightarrow> if IsNotFoundErr err then t else t))"

section \<open>Well-formed names and directories\<close>





text \<open>
  \<open>net.ParseMAC\<close> and \<open>net.ParseIP\<close> are parameters of the stores. The examples use
  simple parsers: one that accepts every text and returns its bytes, and one that
  accepts every text but the empty one.
\<close>

definition textBytes :: "string \<Rightarrow> error + HardwareAddr" where
  "textBytes s = Inr (map (\<lambda>c. of_nat (of_char c)) s)"

definition textIP :: "string \<Rightarrow> IP option" where
  "textIP s = (if s = [] then None else Some (IP s True))"





text \<open>A call of \<open>Reserve\<close> in which no system call fails.\<close>

definition noFaults :: reserve_faults where
  "noFaults = \<lparr>openFault = None, writeFault = None, closeFault = None, removeFault = None, lastIPFault = None\<rparr>"

section \<open>plugins/main/bridge: the reserved MAC in the database\<close>

text \<open>
  \<open>getReservedMAC\<close> sets \<open>netConf.mac\<close>; the model returns the value of that field and
  the table, which the purge may have changed. \<open>mac\<close>, \<open>netName\<close> and
  \<open>reservedMACDays\<close> are the fields \<open>mac\<close>, \<open>Name\<close> and \<open>ReservedMACDays\<close> of
  \<open>netConf\<close>; the bridge plugin passes an empty data directory to \<open>OpenDB\<close>.
\<close>

definition getReservedMAC ::
  "(string \<Rightarrow> error + HardwareAddr) \<Rightarrow> int \<Rightarrow> ReservedMAC table \<Rightarrow> string \<Rightarrow> string \<Rightarrow> 64 word \<Rightarrow>
   string \<Rightarrow> error option \<Rightarrow> error option \<Rightarrow> error option \<Rightarrow> string \<times> ReservedMAC table" where
  "getReservedMAC ParseMAC now t mac netName reservedMACDays envArgs fOpen fPurge fGet =
     (if mac \<noteq> [] then (mac, t)
      else case ResolvePodNSAndNameFromEnvArgs envArgs of
        (podNS, podName, err) \<Rightarrow>
          if podName = [] then (mac, t)
          else case OpenDB netName [] PluginBridge fOpen of
              Some err \<Rightarrow> (mac, t)
            | None \<Rightarrow>
                (let t1 = (if 0 < sint reservedMACDays
                           then fst (PurgeExpiredMACs now t reservedMACDays fPurge) else t)
                 in case GetReservedMAC t1 podNS podName fGet of
                      (reservedMAC, err) \<Rightarrow>
                        if (case err of Some e \<Rightarrow> \<not> IsNotFoundErr e | None \<Rightarrow> False) then (mac, t1)
                        else if MAC reservedMAC = [] then (mac, t1)
                        else (case ParseMAC (MAC reservedMAC) of
                                Inl err \<Rightarrow> (mac, t1)
                              | Inr hw \<Rightarrow> (MAC reservedMAC, t1))))"

definition saveReservedMAC ::
  "int \<Rightarrow> ReservedMAC table \<Rightarrow> string \<Rightarrow> string \<Rightarrow> string \<Rightarrow>
   error option \<Rightarrow> error option \<Rightarrow> error option \<Rightarrow> ReservedMAC table" where
  "saveReservedMAC now t network envArgs containerMAC fOpen fGet fSave =
     (case ResolvePodNSAndNameFromEnvArgs envArgs of
        (podNS, podName, err) \<Rightarrow>
          if podName = [] then t
          else case OpenDB network [] PluginBridge fOpen of
              Some err \<Rightarrow> t
            | None \<Rightarrow>
                (case GetReservedMAC t podNS podName fGet of
                   (reservedMAC, err) \<Rightarrow>
                     if (case err of Some e \<Rightarrow> \<not> IsNotFoundErr e | None \<Rightarrow> False) then t
                     else fst (ReserveMAC now t
                            (reservedMAC\<lparr>Namespace := podNS, Name := podName, Deleted := False,
                               MAC := containerMAC\<rparr>) fSave)))"

text \<open>\<open>releaseMAC\<close>, once it holds the bridge's file lock.\<close>

definition releaseMAC ::
  "int \<Rightarrow> ReservedMAC table \<Rightarrow> string \<Rightarrow> string \<Rightarrow> 64 word \<Rightarrow>
   error option \<Rightarrow> error option \<Rightarrow> error option \<Rightarrow> error option \<Rightarrow> ReservedMAC table" where
  "releaseMAC now t network envArgs expirationDays fOpen fPurge fGet fSave =
     (case ResolvePodNSAndNameFromEnvArgs envArgs of
        (podNS, podName, err) \<Rightarrow>
          (case OpenDB network [] PluginBridge fOpen of
             Some err \<Rightarrow> t
           | None \<Rightarrow>
               (let t1 = (if 0 < sint expirationDays
                          then fst (PurgeExpiredMACs now t expirationDays fPurge) else t)
                in if podName = [] then t1
                   else case GetReservedMAC t1 podNS podName fGet of
                       (reservedMAC, None) \<Rightarrow>
                         fst (ReserveMAC now t1 (reservedMAC\<lparr>Deleted := True\<rparr>) fSave)
                     | (reservedMAC, Some err) \<Rightarrow> if IsNotFoundErr err then t1 else t1)))"

section \<open>The allocator's \<open>Get\<close>\<close>

text \<open>
  Modelled from the spec: \<open>IPAllocator.Get\<close>, whose file is not among the sources.
  Section 4.5, step 4: the ordinary allocation is the range iteration together with the
  store's \<open>reserve\<close>, with the requested address as the forced candidate, or an
  unconstrained search when there is none. \<open>candidates\<close> are the addresses of the range
  in the order of the iteration. \<open>GetIP\<close> takes the allocator's \<open>Get\<close> as a parameter;
  this one serves the examples.
\<close>

primrec reserveFirst ::
  "bool \<Rightarrow> string \<Rightarrow> string \<Rightarrow> string \<Rightarrow> IP list \<Rightarrow> dir \<Rightarrow> dir \<times> (error + IPConfig)" where
  "reserveFirst windows rangeID cid ifname [] d =
     (d, Inl (ErrAlloc ''no IP addresses available in range set''))"
| "reserveFirst windows rangeID cid ifname (ip # ips) d =
     (case Reserve windows d cid ifname ip rangeID noFaults of
        (d', reserved, Some e) \<Rightarrow> (d', Inl e)
      | (d', reserved, None) \<Rightarrow>
          if reserved then (d', Inr \<lparr>Address_IP = ip, Gateway = None\<rparr>)
          else reserveFirst windows rangeID cid ifname ips d')"

definition Get_spec ::
  "bool \<Rightarrow> string \<Rightarrow> IP list \<Rightarrow> string \<Rightarrow> string \<Rightarrow> IP option \<Rightarrow> dir \<Rightarrow> dir \<times> (error + IPConfig)" where
  "Get_spec windows rangeID candidates cid ifname requestedIP d =
     (case requestedIP of
        Some ip \<Rightarrow>
          (case Reserve windows d cid ifname ip rangeID noFaults of
             (d', reserved, Some e) \<Rightarrow> (d', Inl e)
           | (d', reserved, None) \<Rightarrow>
               if reserved then (d', Inr \<lparr>Address_IP = ip, Gateway = None\<rparr>)
               else (d', Inl (ErrAlloc ''requested IP address is not available in range set'')))
      | None \<Rightarrow> reserveFirst windows rangeID cid ifname candidates d)"

text \<open>A call of \<open>GetIP\<close> in which no database call fails.\<close>

definition noDBFaults :: getip_faults where
  "noDBFaults = \<lparr>lookupOpen = None, lookupGet = None, saveOpen = None, saveGet = None,
     saveSave = None\<rparr>"

section \<open>Properties of the environment-argument resolver\<close>

lemma Split_not_Nil: "Split s c \<noteq> []"
  by (induction s) (auto split: list.splits)

lemma length_Split: "length (Split s c) = Count s c + 1"
  by (induction s) (auto simp: Count_def Split_not_Nil split: list.splits)

lemma resolvePairs_invalid:
  "pair \<in> set pairs \<Longrightarrow> length (Split pair (CHR ''='')) \<noteq> 2 \<Longrightarrow>
   \<exists>ns' name' p. resolvePairs pairs ns name = (ns', name', Some (ErrInvalidPair p))"
proof (induction pairs arbitrary: ns name)
  case Nil
  then show ?case by simp
next
  case (Cons q pairs)
  show ?case
  proof (cases "length (Split q (CHR ''='')) \<noteq> 2")
    case True
    then show ?thesis by simp
  next
    case False
    with Cons.prems have "pair \<in> set pairs" by auto
    from Cons.IH [OF this Cons.prems(2)] False show ?thesis
      by (simp add: Let_def)
  qed
qed

text \<open>
  C8. \<open>ResolvePodNSAndNameFromEnvArgs\<close> returns empty namespace and name with a nil
  error on the empty input; it returns an error when some semicolon-separated segment
  does not split on \<open>=\<close> into exactly two parts; and it returns an error when the
  namespace and name its loop resolved are together longer than 230 bytes: the
  length-limit error, with empty strings, when every segment was well formed.
\<close>

theorem C8_resolve_env_args:
  "ResolvePodNSAndNameFromEnvArgs [] = ([], [], None) \<and>
   (envArgs \<noteq> [] \<longrightarrow> pair \<in> set (Split envArgs (CHR '';'')) \<longrightarrow>
      length (Split pair (CHR ''='')) \<noteq> 2 \<longrightarrow>
      (\<exists>ns' name' p. ResolvePodNSAndNameFromEnvArgs envArgs = (ns', name', Some (ErrInvalidPair p)))) \<and>
   (envArgs2 \<noteq> [] \<longrightarrow> resolvePairs (Split envArgs2 (CHR '';'')) [] [] = (ns, name, e) \<longrightarrow>
      230 < length ns + length name \<longrightarrow>
      snd (snd (ResolvePodNSAndNameFromEnvArgs envArgs2)) \<noteq> None \<and>
      (e = None \<longrightarrow> ResolvePodNSAndNameFromEnvArgs envArgs2 = ([], [], Some ErrLengthLimit)))"
proof (intro conjI impI)
  show "ResolvePodNSAndNameFromEnvArgs [] = ([], [], None)"
    by (simp add: ResolvePodNSAndNameFromEnvArgs_def)
next
  assume ne: "envArgs \<noteq> []" and mem: "pair \<in> set (Split envArgs (CHR '';''))"
    and bad: "length (Split pair (CHR ''='')) \<noteq> 2"
  from resolvePairs_invalid [OF mem bad, of "[]" "[]"]
  obtain ns' name' p where
    "resolvePairs (Split envArgs (CHR '';'')) [] [] = (ns', name', Some (ErrInvalidPair p))"
    by blast
  with ne show "\<exists>ns' name' p. ResolvePodNSAndNameFromEnvArgs envArgs = (ns', name', Some (ErrInvalidPair p))"
    by (simp add: ResolvePodNSAndNameFromEnvArgs_def)
next
  assume a: "envArgs2 \<noteq> []"
    "resolvePairs (Split envArgs2 (CHR '';'')) [] [] = (ns, name, e)"
    "230 < length ns + length name"
  then show "snd (snd (ResolvePodNSAndNameFromEnvArgs envArgs2)) \<noteq> None"
    by (cases e) (simp_all add: ResolvePodNSAndNameFromEnvArgs_def)
  assume "e = None"
  with a show "ResolvePodNSAndNameFromEnvArgs envArgs2 = ([], [], Some ErrLengthLimit)"
    by (simp add: ResolvePodNSAndNameFromEnvArgs_def)
qed

text \<open>
  The witness of C8: a segment without \<open>=\<close> after a well-formed one, and a namespace
  and a name of 200 bytes each, as in the repository's test of the length limit.
\<close>

theorem C8_resolve_env_args_witness:
  "''K8S_POD_NAME=pod;bad'' \<noteq> [] \<and> ''bad'' \<in> set (Split ''K8S_POD_NAME=pod;bad'' (CHR '';'')) \<and>
   length (Split ''bad'' (CHR ''='')) \<noteq> 2 \<and>
   (\<exists>ns' name' p. ResolvePodNSAndNameFromEnvArgs ''K8S_POD_NAME=pod;bad'' = (ns', name', Some (ErrInvalidPair p))) \<and>
   ''K8S_POD_NAMESPACE='' @ replicate 200 (CHR ''x'') @ '';K8S_POD_NAME='' @ replicate 200 (CHR ''x'') \<noteq> [] \<and>
   resolvePairs (Split (''K8S_POD_NAMESPACE='' @ replicate 200 (CHR ''x'') @ '';K8S_POD_NAME='' @ replicate 200 (CHR ''x'')) (CHR '';'')) [] []
     = (replicate 200 (CHR ''x''), replicate 200 (CHR ''x''), None) \<and>
   230 < length (replicate 200 (CHR ''x'')) + length (replicate 200 (CHR ''x'')) \<and>
   ResolvePodNSAndNameFromEnvArgs (''K8S_POD_NAMESPACE='' @ replicate 200 (CHR ''x'') @ '';K8S_POD_NAME='' @ replicate 200 (CHR ''x''))
     = ([], [], Some ErrLengthLimit)"
proof -
  let ?a = "''K8S_POD_NAME=pod;bad''"
  let ?x = "replicate 200 (CHR ''x'')"
  let ?b = "''K8S_POD_NAMESPACE='' @ ?x @ '';K8S_POD_NAME='' @ ?x"
  have h1: "?a \<noteq> [] \<and> ''bad'' \<in> set (Split ?a (CHR '';'')) \<and> length (Split ''bad'' (CHR ''='')) \<noteq> 2"
    by simp
  have h2: "?b \<noteq> []" by simp
  have h3: "resolvePairs (Split ?b (CHR '';'')) [] [] = (?x, ?x, None)" by code_simp
  have h4: "230 < length ?x + length ?x" by simp
  from C8_resolve_env_args [of ?a "''bad''" ?b ?x ?x None] h1 h2 h3 h4 show ?thesis by blast
qed

section \<open>Properties of the flat-file address store\<close>

lemma walkFind_iff: "walkFind d match found \<longleftrightarrow> found \<or> (\<exists>f \<in> set d. TrimSpace (snd f) = match)"
  by (induction d arbitrary: found) auto

lemma Reserve_success:
  assumes "Reserve windows d cid ifname ip rangeID flt = (d1, True, None)"
  shows "d1 = AList.update (GetEscapedPath windows (lastIPFilePrefix @ rangeID)) (IP_String ip)
           (AList.update (GetEscapedPath windows (IP_String ip)) (TrimSpace cid @ LineBreak @ ifname) d)"
  using assms
  by (auto simp: Reserve_def Let_def OpenFileExcl_def WriteString_def WriteFile_def
      split: if_splits option.splits prod.splits)

text \<open>
  C1. After a successful \<open>Reserve\<close> of an address, a second \<open>Reserve\<close> of the same
  address, with any owner id, interface name and range id and whatever faults the
  operating system has in store for it, returns \<open>(false, nil)\<close> and leaves the whole
  data directory as it was, so the reservation file keeps its content: the trimmed owner
  id, the line break and the interface name of the first call (when the address's file
  is not the first call's last-reserved marker file itself, which no address text is).
\<close>

theorem C1_second_reserve_refused:
  assumes "Reserve windows d cid ifname ip rangeID flt = (d1, True, None)"
    and "IP_String ip2 = IP_String ip"
  shows "Reserve windows d1 cid2 ifname2 ip2 rangeID2 flt2 = (d1, False, None) \<and>
     (GetEscapedPath windows (IP_String ip) \<noteq> GetEscapedPath windows (lastIPFilePrefix @ rangeID) \<longrightarrow>
        map_of d1 (GetEscapedPath windows (IP_String ip)) = Some (TrimSpace cid @ LineBreak @ ifname))"
proof -
  let ?fname = "GetEscapedPath windows (IP_String ip)"
  let ?ipfile = "GetEscapedPath windows (lastIPFilePrefix @ rangeID)"
  note d1 = Reserve_success [OF assms(1)]
  have ex: "map_of d1 ?fname \<noteq> None"
    by (simp add: d1 AList.update_conv')
  have "Reserve windows d1 cid2 ifname2 ip2 rangeID2 flt2 = (d1, False, None)"
    using ex assms(2) by (simp add: Reserve_def OpenFileExcl_def)
  moreover have "?fname \<noteq> ?ipfile \<longrightarrow> map_of d1 ?fname = Some (TrimSpace cid @ LineBreak @ ifname)"
    by (simp add: d1 AList.update_conv')
  ultimately show ?thesis by blast
qed

theorem C1_second_reserve_refused_witness:
  "Reserve False [] ''c1'' ''eth0'' (IP ''10.1.2.3'' True) ''1'' noFaults =
     ([(''10.1.2.3'', ''c1'' @ LineBreak @ ''eth0''), (''last_reserved_ip.1'', ''10.1.2.3'')], True, None) \<and>
   Reserve False [(''10.1.2.3'', ''c1'' @ LineBreak @ ''eth0''), (''last_reserved_ip.1'', ''10.1.2.3'')]
     ''c2'' ''eth1'' (IP ''10.1.2.3'' True) ''2''
     \<lparr>openFault = Some (ErrIO ''permission denied''), writeFault = None, closeFault = None, removeFault = None, lastIPFault = None\<rparr> =
     ([(''10.1.2.3'', ''c1'' @ LineBreak @ ''eth0''), (''last_reserved_ip.1'', ''10.1.2.3'')], False, None) \<and>
   map_of [(''10.1.2.3'', ''c1'' @ LineBreak @ ''eth0''), (''last_reserved_ip.1'', ''10.1.2.3'')] ''10.1.2.3'' =
     Some (''c1'' @ LineBreak @ ''eth0'')"
proof -
  have r: "Reserve False [] ''c1'' ''eth0'' (IP ''10.1.2.3'' True) ''1'' noFaults =
     ([(''10.1.2.3'', ''c1'' @ LineBreak @ ''eth0''), (''last_reserved_ip.1'', ''10.1.2.3'')], True, None)"
    by code_simp
  have t: "TrimSpace ''c1'' = ''c1''" by code_simp
  from C1_second_reserve_refused [OF r refl, of "''c2''" "''eth1''" "''2''"
      "\<lparr>openFault = Some (ErrIO ''permission denied''), writeFault = None, closeFault = None, removeFault = None, lastIPFault = None\<rparr>"] r t
  show ?thesis by (simp add: GetEscapedPath_def lastIPFilePrefix_def)
qed

text \<open>
  C6, as stated, fails: \<open>Reserve\<close> discards the result of its \<open>os.Remove\<close>. When
  the write fails after three bytes and the removal fails too, the file stays in the
  data directory with those three bytes, and \<open>Reserve\<close> returns the error of the write.
\<close>

theorem C6_failed_write_removes_file_counterexample:
  "Reserve False [] ''c1'' ''eth0'' (IP ''10.1.2.3'' True) ''1''
     \<lparr>openFault = None, writeFault = Some (3, ErrIO ''no space left on device''), closeFault = None,
      removeFault = Some (ErrIO ''permission denied''), lastIPFault = None\<rparr> =
     ([(''10.1.2.3'', [CHR ''c'', CHR ''1'', CHR 0x0D])], False, Some (ErrIO ''no space left on device''))"
  by code_simp

text \<open>
  C6, amended. When \<open>Reserve\<close> has created the reservation file (the file did not exist
  and the open did not fail) and the write of the owner id and interface name fails,
  after any number of bytes, or the close fails, \<open>Reserve\<close> calls \<open>os.Remove\<close> on the
  file and returns the error of the write or of the close, whatever the removal did.
  When the removal succeeds, the data directory is again the one before the call, in
  which the file does not exist. When the removal fails, the file stays with the bytes
  written: the first \<open>n\<close> bytes of the owner id, line break and interface name when the
  write failed, all of them when the close failed.
\<close>

theorem C6_failed_write_removes_file:
  assumes "map_of d (GetEscapedPath windows (IP_String ip)) = None"
    and "openFault flt = None"
    and "writeFault flt = Some (n, e) \<or> (writeFault flt = None \<and> closeFault flt = Some e)"
  shows "(removeFault flt = None \<longrightarrow>
            Reserve windows d cid ifname ip rangeID flt = (d, False, Some e)) \<and>
         (removeFault flt \<noteq> None \<longrightarrow>
            Reserve windows d cid ifname ip rangeID flt =
              (AList.update (GetEscapedPath windows (IP_String ip))
                 (case writeFault flt of
                    Some (k, w) \<Rightarrow> take k (TrimSpace cid @ LineBreak @ ifname)
                  | None \<Rightarrow> TrimSpace cid @ LineBreak @ ifname) d,
               False, Some e))"
proof -
  let ?fname = "GetEscapedPath windows (IP_String ip)"
  have notin: "?fname \<notin> fst ` set d"
    using assms(1) by (simp add: map_of_eq_None_iff)
  have del: "AList.delete ?fname (AList.update ?fname c d) = d" for c
    using notin by (simp add: AList.delete_update_same)
  have upd: "AList.update ?fname c (AList.update ?fname c' d) = AList.update ?fname c d" for c c'
    by (simp add: AList.update_conv' update_last)
  from assms(3) show ?thesis
  proof
    assume "writeFault flt = Some (n, e)"
    with assms(1,2) del upd show ?thesis
      by (auto simp add: Reserve_def Let_def OpenFileExcl_def WriteString_def Remove_def
          AList.update_conv')
  next
    assume "writeFault flt = None \<and> closeFault flt = Some e"
    with assms(1,2) del upd show ?thesis
      by (auto simp add: Reserve_def Let_def OpenFileExcl_def WriteString_def Remove_def
          AList.update_conv')
  qed
qed

theorem C6_failed_write_removes_file_witness:
  "map_of [] (GetEscapedPath False (IP_String (IP ''10.1.2.3'' True))) = None \<and>
   Reserve False [] ''c1'' ''eth0'' (IP ''10.1.2.3'' True) ''1''
     \<lparr>openFault = None, writeFault = Some (3, ErrIO ''no space left on device''), closeFault = None,
      removeFault = None, lastIPFault = None\<rparr> = ([], False, Some (ErrIO ''no space left on device'')) \<and>
   Reserve False [] ''c1'' ''eth0'' (IP ''10.1.2.3'' True) ''1''
     \<lparr>openFault = None, writeFault = None, closeFault = Some (ErrIO ''input/output error''),
      removeFault = Some (ErrIO ''permission denied''), lastIPFault = None\<rparr> =
     ([(''10.1.2.3'', ''c1'' @ LineBreak @ ''eth0'')], False, Some (ErrIO ''input/output error''))"
proof -
  have t: "TrimSpace ''c1'' = ''c1''" by code_simp
  from C6_failed_write_removes_file [of "[]" False "IP ''10.1.2.3'' True"
      "\<lparr>openFault = None, writeFault = Some (3, ErrIO ''no space left on device''), closeFault = None,
      removeFault = None, lastIPFault = None\<rparr>" 3 "ErrIO ''no space left on device''" "''c1''" "''eth0''" "''1''"]
    C6_failed_write_removes_file [of "[]" False "IP ''10.1.2.3'' True"
      "\<lparr>openFault = None, writeFault = None, closeFault = Some (ErrIO ''input/output error''),
      removeFault = Some (ErrIO ''permission denied''), lastIPFault = None\<rparr>" 0 "ErrIO ''input/output error''"
      "''c1''" "''eth0''" "''1''"] t
  show ?thesis by (simp add: GetEscapedPath_def)
qed

text \<open>
  C10, as stated, fails: \<open>FindByKey\<close> trims the content it reads but compares it with
  the untrimmed \<open>match\<close>. After a successful \<open>Reserve\<close> with a blank owner id, or with
  an interface name that ends in white space, \<open>FindByID\<close> with the same arguments
  returns false.
\<close>

theorem C10_find_after_reserve_counterexample:
  "Reserve False [] '' '' ''eth0'' (IP ''10.1.2.3'' True) ''1'' noFaults =
     ([(''10.1.2.3'', LineBreak @ ''eth0''), (''last_reserved_ip.1'', ''10.1.2.3'')], True, None) \<and>
   \<not> FindByID [(''10.1.2.3'', LineBreak @ ''eth0''), (''last_reserved_ip.1'', ''10.1.2.3'')] '' '' ''eth0'' \<and>
   Reserve False [] ''c1'' ''eth0 '' (IP ''10.1.2.3'' True) ''1'' noFaults =
     ([(''10.1.2.3'', ''c1'' @ LineBreak @ ''eth0 ''), (''last_reserved_ip.1'', ''10.1.2.3'')], True, None) \<and>
   \<not> FindByID [(''10.1.2.3'', ''c1'' @ LineBreak @ ''eth0 ''), (''last_reserved_ip.1'', ''10.1.2.3'')] ''c1'' ''eth0 ''"
  by code_simp

text \<open>
  C10, amended. After a successful \<open>Reserve(id, ifname, ip, rangeID)\<close>,
  \<open>FindByID(id, ifname)\<close> returns true provided the content written, the trimmed id,
  the line break and the interface name, is left unchanged by \<open>TrimSpace\<close> (the id is
  not blank and the interface name does not end in white space) or trims to the trimmed
  id (the interface name is blank, which the match on the id alone finds). The address's
  file must not be the last-reserved marker file, which no address text is.
\<close>

theorem C10_find_after_reserve:
  assumes "Reserve windows d cid ifname ip rangeID flt = (d1, True, None)"
    and "GetEscapedPath windows (IP_String ip) \<noteq> GetEscapedPath windows (lastIPFilePrefix @ rangeID)"
    and "TrimSpace (TrimSpace cid @ LineBreak @ ifname) = TrimSpace cid @ LineBreak @ ifname \<or>
         TrimSpace (TrimSpace cid @ LineBreak @ ifname) = TrimSpace cid"
  shows "FindByID d1 cid ifname"
proof -
  let ?fname = "GetEscapedPath windows (IP_String ip)"
  let ?c = "TrimSpace cid @ LineBreak @ ifname"
  have "map_of d1 ?fname = Some ?c"
    using assms(2) by (simp add: Reserve_success [OF assms(1)] AList.update_conv')
  then have mem: "(?fname, ?c) \<in> set d1" by (rule map_of_SomeD)
  from assms(3) show ?thesis
  proof
    assume "TrimSpace ?c = ?c"
    with mem have "walkFind d1 ?c False" by (force simp: walkFind_iff)
    then show ?thesis by (simp add: FindByID_def FindByKey_def Let_def)
  next
    assume "TrimSpace ?c = TrimSpace cid"
    with mem have "walkFind d1 (TrimSpace cid) False" by (force simp: walkFind_iff)
    then show ?thesis by (simp add: FindByID_def FindByKey_def Let_def)
  qed
qed

theorem C10_find_after_reserve_witness:
  "Reserve False [] '' c1 '' ''eth0'' (IP ''10.1.2.3'' True) ''1'' noFaults =
     ([(''10.1.2.3'', ''c1'' @ LineBreak @ ''eth0''), (''last_reserved_ip.1'', ''10.1.2.3'')], True, None) \<and>
   TrimSpace (TrimSpace '' c1 '' @ LineBreak @ ''eth0'') = TrimSpace '' c1 '' @ LineBreak @ ''eth0'' \<and>
   FindByID [(''10.1.2.3'', ''c1'' @ LineBreak @ ''eth0''), (''last_reserved_ip.1'', ''10.1.2.3'')] '' c1 '' ''eth0''"
proof -
  have r: "Reserve False [] '' c1 '' ''eth0'' (IP ''10.1.2.3'' True) ''1'' noFaults =
     ([(''10.1.2.3'', ''c1'' @ LineBreak @ ''eth0''), (''last_reserved_ip.1'', ''10.1.2.3'')], True, None)"
    by code_simp
  have n: "GetEscapedPath False (IP_String (IP ''10.1.2.3'' True)) \<noteq> GetEscapedPath False (lastIPFilePrefix @ ''1'')"
    by code_simp
  have t: "TrimSpace (TrimSpace '' c1 '' @ LineBreak @ ''eth0'') = TrimSpace '' c1 '' @ LineBreak @ ''eth0''"
    by code_simp
  from C10_find_after_reserve [OF r n disjI1 [OF t]] r t show ?thesis by simp
qed

section \<open>Properties of names, patterns and directories\<close>


















lemma filter_eq_notin: "c \<notin> set s \<Longrightarrow> filter (\<lambda>x. x = c) s = []"
  by (induction s) auto



lemma starMatch_Nil_Cons: "p \<noteq> CHR ''*'' \<Longrightarrow> \<not> starMatch (p # ps) []"
  by simp











section \<open>Properties of the pod-to-address files\<close>



text \<open>
  C7. For every identity and every matcher, when the glob of the lookup pattern returns
  more than one file, or one file whose name does not split at \<open>_\<close> into exactly four
  components, \<open>findPodFileName\<close> returns the empty name with a nil error, in the
  bridge store and in the host-local store; \<open>hasReservedMAC\<close> then returns no address
  and a nil error and \<open>HasReservedIP\<close> returns false.
\<close>

theorem C7_lookup_tolerates_bad_state:
  "(Glob Match d (GetEscapedPath windows (''mac_*_'' @ podNS @ ''_'' @ podName)) = Inr macFiles \<longrightarrow>
      (1 < length macFiles \<or> (\<exists>f. macFiles = [f] \<and> length (Split f (CHR ''_'')) \<noteq> 4)) \<longrightarrow>
      bridge_findPodFileName Match windows d [] podNS podName = ([], None) \<and>
      hasReservedMAC Match ParseMAC windows d podNS podName = (None, None)) \<and>
   (Glob Match2 d2 (GetEscapedPath windows2 (''ip_*_'' @ podNs2 @ ''_'' @ podName2)) = Inr ipFiles \<longrightarrow>
      (1 < length ipFiles \<or> (\<exists>f. ipFiles = [f] \<and> length (Split f (CHR ''_'')) \<noteq> 4)) \<longrightarrow>
      disk_findPodFileName Match2 windows2 d2 [] podNs2 podName2 = ([], None) \<and>
      HasReservedIP Match2 ParseIP windows2 d2 podNs2 podName2 = (False, None))"
proof (intro conjI impI)
  assume g: "Glob Match d (GetEscapedPath windows (''mac_*_'' @ podNS @ ''_'' @ podName)) = Inr macFiles"
    and bad: "1 < length macFiles \<or> (\<exists>f. macFiles = [f] \<and> length (Split f (CHR ''_'')) \<noteq> 4)"
  from bad have nb: "\<not> (length macFiles = 1 \<and> Count (macFiles ! 0) (CHR ''_'') = 3)"
    by (auto simp: length_Split)
  with g show f: "bridge_findPodFileName Match windows d [] podNS podName = ([], None)"
    by (cases "length macFiles = 1") (simp_all add: bridge_findPodFileName_def)
  then show "hasReservedMAC Match ParseMAC windows d podNS podName = (None, None)"
    by (simp add: hasReservedMAC_def)
next
  assume g: "Glob Match2 d2 (GetEscapedPath windows2 (''ip_*_'' @ podNs2 @ ''_'' @ podName2)) = Inr ipFiles"
    and bad: "1 < length ipFiles \<or> (\<exists>f. ipFiles = [f] \<and> length (Split f (CHR ''_'')) \<noteq> 4)"
  from bad have nb: "\<not> (length ipFiles = 1 \<and> Count (ipFiles ! 0) (CHR ''_'') = 3)"
    by (auto simp: length_Split)
  with g show f: "disk_findPodFileName Match2 windows2 d2 [] podNs2 podName2 = ([], None)"
    by (cases "length ipFiles = 1") (simp_all add: disk_findPodFileName_def)
  then show "HasReservedIP Match2 ParseIP windows2 d2 podNs2 podName2 = (False, None)"
    by (simp add: HasReservedIP_def)
qed

theorem C7_lookup_tolerates_bad_state_witness:
  "Glob Match_star [(''mac_02-42-af-a3-d8-01_ns_pod'', []), (''mac_02-42-af-a3-d8-02_ns_pod'', [])]
      (GetEscapedPath False (''mac_*_'' @ ''ns'' @ ''_'' @ ''pod'')) =
      Inr [''mac_02-42-af-a3-d8-01_ns_pod'', ''mac_02-42-af-a3-d8-02_ns_pod''] \<and>
   1 < length [''mac_02-42-af-a3-d8-01_ns_pod'', ''mac_02-42-af-a3-d8-02_ns_pod''] \<and>
   bridge_findPodFileName Match_star False
      [(''mac_02-42-af-a3-d8-01_ns_pod'', []), (''mac_02-42-af-a3-d8-02_ns_pod'', [])] [] ''ns'' ''pod'' = ([], None) \<and>
   hasReservedMAC Match_star (\<lambda>s. Inl (ErrIO ''unused'')) False
      [(''mac_02-42-af-a3-d8-01_ns_pod'', []), (''mac_02-42-af-a3-d8-02_ns_pod'', [])] ''ns'' ''pod'' = (None, None) \<and>
   Glob Match_star [(''ip_10.10.10.2_old_ns_pod'', [])]
      (GetEscapedPath False (''ip_*_'' @ ''ns'' @ ''_'' @ ''pod'')) = Inr [''ip_10.10.10.2_old_ns_pod''] \<and>
   length (Split ''ip_10.10.10.2_old_ns_pod'' (CHR ''_'')) \<noteq> 4 \<and>
   disk_findPodFileName Match_star False [(''ip_10.10.10.2_old_ns_pod'', [])] [] ''ns'' ''pod'' = ([], None) \<and>
   HasReservedIP Match_star (\<lambda>s. Some (IP s True)) False [(''ip_10.10.10.2_old_ns_pod'', [])] ''ns'' ''pod'' = (False, None)"
proof -
  let ?d = "[(''mac_02-42-af-a3-d8-01_ns_pod'', []), (''mac_02-42-af-a3-d8-02_ns_pod'', [])] :: dir"
  let ?fs = "[''mac_02-42-af-a3-d8-01_ns_pod'', ''mac_02-42-af-a3-d8-02_ns_pod'']"
  let ?d2 = "[(''ip_10.10.10.2_old_ns_pod'', [])] :: dir"
  have g1: "Glob Match_star ?d (GetEscapedPath False (''mac_*_'' @ ''ns'' @ ''_'' @ ''pod'')) = Inr ?fs"
    by code_simp
  have b1: "1 < length ?fs \<or> (\<exists>f. ?fs = [f] \<and> length (Split f (CHR ''_'')) \<noteq> 4)" by simp
  have g2: "Glob Match_star ?d2 (GetEscapedPath False (''ip_*_'' @ ''ns'' @ ''_'' @ ''pod'')) = Inr [''ip_10.10.10.2_old_ns_pod'']"
    by code_simp
  have l2: "length (Split ''ip_10.10.10.2_old_ns_pod'' (CHR ''_'')) \<noteq> 4" by code_simp
  then have b2: "1 < length [''ip_10.10.10.2_old_ns_pod''] \<or>
      (\<exists>f. [''ip_10.10.10.2_old_ns_pod''] = [f] \<and> length (Split f (CHR ''_'')) \<noteq> 4)" by blast
  from C7_lookup_tolerates_bad_state [of Match_star ?d False "''ns''" "''pod''" ?fs
      "\<lambda>s. Inl (ErrIO ''unused'')" Match_star ?d2 False "''ns''" "''pod''" "[''ip_10.10.10.2_old_ns_pod'']"
      "\<lambda>s. Some (IP s True)"] g1 b1 g2 b2 l2
  show ?thesis by simp
qed




section \<open>Properties of the reservation database\<close>

lemma expiryEnd_exact:
  assumes lo: "- 106751 \<le> sint days" and hi: "sint days \<le> 106751"
  shows "expiryEnd now days = now - sint days * dayNs"
proof -
  define k where "k = sint days"
  have d: "days = word_of_int k" by (simp add: k_def)
  have "- days * 24 * Hour = (word_of_int (- k * 86400000000000) :: 64 word)"
    unfolding d Hour_def by (simp add: mult.assoc)
  then have "sint (- days * 24 * Hour) = signed_take_bit 63 (- k * 86400000000000)"
    by (simp only: sint_sbintrunc') simp
  also have "\<dots> = - k * 86400000000000"
  proof (rule signed_take_bit_int_eq_self)
    from hi show "- (2 ^ 63) \<le> - k * 86400000000000" by (simp add: k_def)
    from lo show "- k * 86400000000000 < 2 ^ 63" by (simp add: k_def)
  qed
  finally show ?thesis by (simp add: expiryEnd_def k_def dayNs_def)
qed

lemma Delete_rows:
  "rows (fst (Delete t end None)) = filter (\<lambda>r. \<not> (Deleted r \<and> UpdatedAt r < end)) (rows t)"
  by (simp add: Delete_def)

lemma Delete_keeps:
  "r \<in> set (rows t) \<Longrightarrow> \<not> Deleted r \<Longrightarrow> r \<in> set (rows (fst (Delete t end fault)))"
  by (cases fault) (simp_all add: Delete_def)

lemma Delete_removes_iff:
  assumes "r \<in> set (rows t)" and "Deleted r" and "UpdatedAt r = now - N * dayNs"
    and "- 106751 \<le> sint days" and "sint days \<le> 106751"
  shows "r \<notin> set (rows (fst (Delete t (expiryEnd now days) None))) \<longleftrightarrow> sint days < N"
proof -
  have pos: "0 < dayNs" by (simp add: dayNs_def)
  have "r \<notin> set (rows (fst (Delete t (expiryEnd now days) None))) \<longleftrightarrow>
        UpdatedAt r < expiryEnd now days"
    using assms(1,2) by (simp add: Delete_rows)
  also have "\<dots> \<longleftrightarrow> now - N * dayNs < now - sint days * dayNs"
    by (simp only: assms(3) expiryEnd_exact [OF assms(4,5)])
  also have "\<dots> \<longleftrightarrow> sint days * dayNs < N * dayNs" by linarith
  also have "\<dots> \<longleftrightarrow> sint days < N" using pos by simp
  finally show ?thesis .
qed

lemma find_map_replace:
  "find P xs = Some r \<Longrightarrow> P r' \<Longrightarrow>
   find P (map (\<lambda>x. if ID x = ID r then r' else x) xs) = Some r'"
proof (induction xs)
  case Nil
  then show ?case by simp
next
  case (Cons x xs)
  show ?case
  proof (cases "P x")
    case True
    with Cons.prems(1) have "x = r" by simp
    with Cons.prems(2) show ?thesis by simp
  next
    case False
    with Cons.prems(1) have "find P xs = Some r" by simp
    from Cons.IH [OF this Cons.prems(2)] False Cons.prems(2) show ?thesis by simp
  qed
qed

lemma find_Some_ex: "find P xs = Some r \<Longrightarrow> list_ex (\<lambda>x. ID x = ID r) xs"
proof -
  assume "find P xs = Some r"
  then have "r \<in> set xs" by (auto simp: find_Some_iff)
  then show ?thesis by (auto simp: list_ex_iff)
qed

lemma find_append_new: "find P xs = None \<Longrightarrow> P r' \<Longrightarrow> find P (xs @ [r']) = Some r'"
  by (induction xs) (auto split: if_splits)

lemma Take_found:
  "Take zero t podNS podName None = (r, None) \<longleftrightarrow>
   find (\<lambda>r. Namespace r = podNS \<and> Name r = podName) (rows t) = Some r"
  by (auto simp: Take_def split: option.splits)

lemma Take_notfound:
  "snd (Take zero t podNS podName None) = Some ErrRecordNotFound \<longleftrightarrow>
   find (\<lambda>r. Namespace r = podNS \<and> Name r = podName) (rows t) = None"
  by (auto simp: Take_def split: option.splits)

lemma Take_Save_found:
  assumes "Take zero t podNS podName None = (r, None)" and "ID r' = ID r" and "ID r \<noteq> 0"
    and "Namespace r' = podNS" and "Name r' = podName"
  shows "Take zero (fst (Save now t r' None)) podNS podName None = (r'\<lparr>UpdatedAt := now\<rparr>, None)"
proof -
  let ?P = "\<lambda>r. Namespace r = podNS \<and> Name r = podName"
  from assms(1) have f: "find ?P (rows t) = Some r" by (simp add: Take_found)
  have ex: "list_ex (\<lambda>x. ID x = ID r) (rows t)" by (rule find_Some_ex [OF f])
  have P': "?P (r'\<lparr>UpdatedAt := now\<rparr>)" using assms(4,5) by simp
  have "rows (fst (Save now t r' None)) =
      map (\<lambda>x. if ID x = ID r then r'\<lparr>UpdatedAt := now\<rparr> else x) (rows t)"
    using ex assms(2,3) by (simp add: Save_def)
  with find_map_replace [OF f P'] show ?thesis by (simp add: Take_found)
qed

lemma Take_Save_new:
  assumes "snd (Take zero t podNS podName None) = Some ErrRecordNotFound" and "ID r' = 0"
    and "Namespace r' = podNS" and "Name r' = podName"
  shows "Take zero (fst (Save now t r' None)) podNS podName None =
     (r'\<lparr>ID := lastID t + 1, CreatedAt := (if CreatedAt r' = 0 then now else CreatedAt r'),
         UpdatedAt := (if UpdatedAt r' = 0 then now else UpdatedAt r')\<rparr>, None)"
proof -
  let ?P = "\<lambda>r. Namespace r = podNS \<and> Name r = podName"
  let ?n = "r'\<lparr>ID := lastID t + 1, CreatedAt := (if CreatedAt r' = 0 then now else CreatedAt r'),
         UpdatedAt := (if UpdatedAt r' = 0 then now else UpdatedAt r')\<rparr>"
  from assms(1) have f: "find ?P (rows t) = None" by (simp add: Take_notfound)
  have P': "?P ?n" using assms(3,4) by simp
  have "rows (fst (Save now t r' None)) = rows t @ [?n]"
    using assms(2) by (simp add: Save_def)
  with find_append_new [OF f P'] show ?thesis by (simp add: Take_found)
qed

text \<open>
  C5, as stated, fails for large day counts: \<open>-time.Duration(days) * 24 * time.Hour\<close>
  is a 64-bit number of nanoseconds and wraps around from 106752 days on. With
  \<open>days = 106752\<close> the horizon lies in the future, and a tombstoned record updated one
  day ago is removed although 106752 is not less than 1.
\<close>

theorem C5_purge_expired_counterexample:
  "Deleted \<lparr>ID = 1, Namespace = ''NS1'', Name = ''pod1'', Deleted = True,
      CreatedAt = 1000000000000000000, UpdatedAt = 1000000000000000000 - 1 * dayNs,
      IPv4 = ''10.10.10.1'', IPv6 = []\<rparr> \<and>
   \<not> sint (106752 :: 64 word) < 1 \<and>
   PurgeExpiredIPs 1000000000000000000
     \<lparr>rows = [\<lparr>ID = 1, Namespace = ''NS1'', Name = ''pod1'', Deleted = True,
         CreatedAt = 1000000000000000000, UpdatedAt = 1000000000000000000 - 1 * dayNs,
         IPv4 = ''10.10.10.1'', IPv6 = []\<rparr>], lastID = 1\<rparr> 106752 None =
     (\<lparr>rows = [], lastID = 1\<rparr>, None) \<and>
   PurgeExpiredMACs 1000000000000000000
     \<lparr>rows = [\<lparr>ID = 1, Namespace = ''NS1'', Name = ''pod1'', Deleted = True,
         CreatedAt = 1000000000000000000, UpdatedAt = 1000000000000000000 - 1 * dayNs,
         MAC = ''02:42:af:a3:d8:01''\<rparr>], lastID = 1\<rparr> 106752 None =
     (\<lparr>rows = [], lastID = 1\<rparr>, None)"
  by code_simp

text \<open>
  C5, amended. For a day count between -106751 and 106751, whose duration a
  \<open>time.Duration\<close> can hold, a record of the table whose deleted flag is true and whose
  \<open>updated_at\<close> lies \<open>N\<close> days before \<open>now\<close> is removed by \<open>PurgeExpiredIPs\<close>
  (\<open>PurgeExpiredMACs\<close>) if and only if \<open>days < N\<close>. A record whose deleted flag is false
  stays in the table for every day count, whether or not the call fails.
\<close>

theorem C5_purge_expired:
  "(r \<in> set (rows t) \<and> Deleted r \<and> UpdatedAt r = now - N * dayNs \<and>
    - 106751 \<le> sint days \<and> sint days \<le> 106751 \<longrightarrow>
      (r \<notin> set (rows (fst (PurgeExpiredIPs now t days None))) \<longleftrightarrow> sint days < N)) \<and>
   (m \<in> set (rows u) \<and> Deleted m \<and> UpdatedAt m = nowM - M * dayNs \<and>
    - 106751 \<le> sint daysM \<and> sint daysM \<le> 106751 \<longrightarrow>
      (m \<notin> set (rows (fst (PurgeExpiredMACs nowM u daysM None))) \<longleftrightarrow> sint daysM < M)) \<and>
   (r' \<in> set (rows t') \<and> \<not> Deleted r' \<longrightarrow>
      r' \<in> set (rows (fst (PurgeExpiredIPs now' t' days' fault')))) \<and>
   (m' \<in> set (rows u') \<and> \<not> Deleted m' \<longrightarrow>
      m' \<in> set (rows (fst (PurgeExpiredMACs now'' u' days'' fault''))))"
  by (auto simp: PurgeExpiredIPs_def PurgeExpiredMACs_def Delete_removes_iff Delete_keeps)

theorem C5_purge_expired_witness:
  "(\<lparr>ID = 1, Namespace = ''NS1'', Name = ''pod1'', Deleted = True, CreatedAt = 1000000000000000000,
      UpdatedAt = 1000000000000000000 - 2 * dayNs, IPv4 = ''10.10.10.1'', IPv6 = []\<rparr>
     \<notin> set (rows (fst (PurgeExpiredIPs 1000000000000000000
         \<lparr>rows = [\<lparr>ID = 1, Namespace = ''NS1'', Name = ''pod1'', Deleted = True,
             CreatedAt = 1000000000000000000, UpdatedAt = 1000000000000000000 - 2 * dayNs,
             IPv4 = ''10.10.10.1'', IPv6 = []\<rparr>], lastID = 1\<rparr> 1 None)))) \<and>
   sint (1 :: 64 word) < 2 \<and>
   (\<lparr>ID = 1, Namespace = ''NS1'', Name = ''pod1'', Deleted = True, CreatedAt = 1000000000000000000,
      UpdatedAt = 1000000000000000000 - 2 * dayNs, MAC = ''02:42:af:a3:d8:01''\<rparr>
     \<in> set (rows (fst (PurgeExpiredMACs 1000000000000000000
         \<lparr>rows = [\<lparr>ID = 1, Namespace = ''NS1'', Name = ''pod1'', Deleted = True,
             CreatedAt = 1000000000000000000, UpdatedAt = 1000000000000000000 - 2 * dayNs,
             MAC = ''02:42:af:a3:d8:01''\<rparr>], lastID = 1\<rparr> 2 None)))) \<and>
   \<not> sint (2 :: 64 word) < 2 \<and>
   (\<lparr>ID = 2, Namespace = ''NS2'', Name = ''pod2'', Deleted = False, CreatedAt = 5,
      UpdatedAt = 5, IPv4 = ''10.10.10.2'', IPv6 = []\<rparr>
     \<in> set (rows (fst (PurgeExpiredIPs 1000000000000000000
         \<lparr>rows = [\<lparr>ID = 2, Namespace = ''NS2'', Name = ''pod2'', Deleted = False, CreatedAt = 5,
             UpdatedAt = 5, IPv4 = ''10.10.10.2'', IPv6 = []\<rparr>], lastID = 2\<rparr> 106752 None)))) \<and>
   (\<lparr>ID = 2, Namespace = ''NS2'', Name = ''pod2'', Deleted = False, CreatedAt = 5,
      UpdatedAt = 5, MAC = ''02:42:af:a3:d8:02''\<rparr>
     \<in> set (rows (fst (PurgeExpiredMACs 1000000000000000000
         \<lparr>rows = [\<lparr>ID = 2, Namespace = ''NS2'', Name = ''pod2'', Deleted = False, CreatedAt = 5,
             UpdatedAt = 5, MAC = ''02:42:af:a3:d8:02''\<rparr>], lastID = 2\<rparr> 0 (Some (ErrDB ''locked''))))))"
proof -
  let ?now = "1000000000000000000 :: int"
  let ?r = "\<lparr>ID = 1, Namespace = ''NS1'', Name = ''pod1'', Deleted = True, CreatedAt = ?now,
      UpdatedAt = ?now - 2 * dayNs, IPv4 = ''10.10.10.1'', IPv6 = []\<rparr>"
  let ?m = "\<lparr>ID = 1, Namespace = ''NS1'', Name = ''pod1'', Deleted = True, CreatedAt = ?now,
      UpdatedAt = ?now - 2 * dayNs, MAC = ''02:42:af:a3:d8:01''\<rparr>"
  let ?r' = "\<lparr>ID = 2, Namespace = ''NS2'', Name = ''pod2'', Deleted = False, CreatedAt = 5,
      UpdatedAt = 5, IPv4 = ''10.10.10.2'', IPv6 = []\<rparr>"
  let ?m' = "\<lparr>ID = 2, Namespace = ''NS2'', Name = ''pod2'', Deleted = False, CreatedAt = 5,
      UpdatedAt = 5, MAC = ''02:42:af:a3:d8:02''\<rparr>"
  have h1: "?r \<in> set (rows \<lparr>rows = [?r], lastID = 1\<rparr>) \<and> Deleted ?r \<and>
      UpdatedAt ?r = ?now - 2 * dayNs \<and> - 106751 \<le> sint (1 :: 64 word) \<and> sint (1 :: 64 word) \<le> 106751"
    by simp
  have h2: "?m \<in> set (rows \<lparr>rows = [?m], lastID = 1\<rparr>) \<and> Deleted ?m \<and>
      UpdatedAt ?m = ?now - 2 * dayNs \<and> - 106751 \<le> sint (2 :: 64 word) \<and> sint (2 :: 64 word) \<le> 106751"
    by simp
  have h3: "?r' \<in> set (rows \<lparr>rows = [?r'], lastID = 2\<rparr>) \<and> \<not> Deleted ?r'" by simp
  have h4: "?m' \<in> set (rows \<lparr>rows = [?m'], lastID = 2\<rparr>) \<and> \<not> Deleted ?m'" by simp
  have s1: "sint (1 :: 64 word) < 2" and s2: "\<not> sint (2 :: 64 word) < 2" by simp_all
  from C5_purge_expired [where r = ?r and t = "\<lparr>rows = [?r], lastID = 1\<rparr>" and now = ?now
      and N = 2 and days = 1
      and m = ?m and u = "\<lparr>rows = [?m], lastID = 1\<rparr>" and nowM = ?now and M = 2 and daysM = 2
      and r' = ?r' and t' = "\<lparr>rows = [?r'], lastID = 2\<rparr>" and now' = ?now and days' = 106752
      and fault' = None
      and m' = ?m' and u' = "\<lparr>rows = [?m'], lastID = 2\<rparr>" and now'' = ?now and days'' = 0
      and fault'' = "Some (ErrDB ''locked'')"] h1 h2 h3 h4 s1 s2
  show ?thesis by blast
qed

section \<open>Properties of the allocation orchestrator\<close>

lemma saveIP_then_get:
  assumes nm: "podName \<noteq> []" and ids: "\<forall>x \<in> set (rows t). ID x \<noteq> 0"
  shows "\<exists>r'. GetReservedIP (saveIP now t podNS podName network dataDir ip None None None)
            podNS podName None = (r', None) \<and>
       (IP_To4 ip \<longrightarrow> IPv4 r' = IP_String ip \<and>
          IPv6 r' = IPv6 (fst (GetReservedIP t podNS podName None))) \<and>
       (\<not> IP_To4 ip \<longrightarrow> IPv6 r' = IP_String ip \<and>
          IPv4 r' = IPv4 (fst (GetReservedIP t podNS podName None))) \<and>
       (\<forall>x \<in> set (rows (saveIP now t podNS podName network dataDir ip None None None)). ID x \<noteq> 0)"
proof -
  let ?P = "\<lambda>r. Namespace r = podNS \<and> Name r = podName"
  let ?new = "\<lambda>r0. if IP_To4 ip
       then (r0\<lparr>Namespace := podNS, Name := podName, Deleted := False\<rparr>)\<lparr>IPv4 := IP_String ip\<rparr>
       else (r0\<lparr>Namespace := podNS, Name := podName, Deleted := False\<rparr>)\<lparr>IPv6 := IP_String ip\<rparr>"
  show ?thesis
  proof (cases "find ?P (rows t)")
    case None
    then have g: "GetReservedIP t podNS podName None = (zeroReservedIP, Some ErrRecordNotFound)"
      by (simp add: GetReservedIP_def Take_def)
    have s: "saveIP now t podNS podName network dataDir ip None None None =
        fst (Save now t (?new zeroReservedIP) None)"
      using nm g
      by (simp add: saveIP_def OpenDB_def PluginHostLocal_def PluginBridge_def IsNotFoundErr_def
          ReserveIP_def Let_def)
    from g have nf: "snd (Take zeroReservedIP t podNS podName None) = Some ErrRecordNotFound"
      by (simp add: GetReservedIP_def)
    have id0: "ID (?new zeroReservedIP) = 0" by (simp add: zeroReservedIP_def)
    have n1: "Namespace (?new zeroReservedIP) = podNS" and n2: "Name (?new zeroReservedIP) = podName"
      by simp_all
    note tk = Take_Save_new [OF nf id0 n1 n2, of now]
    have rows: "rows (fst (Save now t (?new zeroReservedIP) None)) =
        rows t @ [(?new zeroReservedIP)\<lparr>ID := lastID t + 1,
           CreatedAt := (if CreatedAt (?new zeroReservedIP) = 0 then now else CreatedAt (?new zeroReservedIP)),
           UpdatedAt := (if UpdatedAt (?new zeroReservedIP) = 0 then now else UpdatedAt (?new zeroReservedIP))\<rparr>]"
      using id0 by (simp add: Save_def)
    have inv: "\<forall>x \<in> set (rows (fst (Save now t (?new zeroReservedIP) None))). ID x \<noteq> 0"
      unfolding rows using ids by simp
    from tk inv show ?thesis
      unfolding s GetReservedIP_def g [unfolded GetReservedIP_def]
      by (cases "IP_To4 ip") (simp_all add: zeroReservedIP_def)
  next
    case (Some r)
    then have g: "GetReservedIP t podNS podName None = (r, None)"
      by (simp add: GetReservedIP_def Take_def)
    from Some have rin: "r \<in> set (rows t)" and Pr: "?P r" by (auto simp: find_Some_iff)
    with ids have idr: "ID r \<noteq> 0" by blast
    have s: "saveIP now t podNS podName network dataDir ip None None None =
        fst (Save now t (?new r) None)"
      using nm g
      by (simp add: saveIP_def OpenDB_def PluginHostLocal_def PluginBridge_def IsNotFoundErr_def
          ReserveIP_def Let_def)
    from g have tkr: "Take zeroReservedIP t podNS podName None = (r, None)"
      by (simp add: GetReservedIP_def)
    have ide: "ID (?new r) = ID r" by simp
    have n1: "Namespace (?new r) = podNS" and n2: "Name (?new r) = podName" by simp_all
    note tk = Take_Save_found [OF tkr ide idr n1 n2, of now]
    have ex: "list_ex (\<lambda>x. ID x = ID (?new r)) (rows t)"
      using rin by (auto simp: list_ex_iff)
    have rows: "rows (fst (Save now t (?new r) None)) =
        map (\<lambda>x. if ID x = ID (?new r) then (?new r)\<lparr>UpdatedAt := now\<rparr> else x) (rows t)"
      using ex idr by (simp add: Save_def)
    have inv: "\<forall>x \<in> set (rows (fst (Save now t (?new r) None))). ID x \<noteq> 0"
      unfolding rows using ids idr by auto
    from tk inv show ?thesis
      unfolding s GetReservedIP_def g [unfolded GetReservedIP_def]
      by (cases "IP_To4 ip") simp_all
  qed
qed

text \<open>
  C9. In a table whose rows have primary keys, when the identity has a record, a
  \<open>saveIP\<close> in which no database call fails leaves the identity with a record whose
  address of the saved family is the text of the saved address and whose address of the
  other family is the one stored before. Saving an IPv4 address and then an IPv6
  address for an identity, from any such table, leaves a record that holds both.
\<close>

theorem C9_saveIP_keeps_other_family:
  "(podName \<noteq> [] \<and> (\<forall>x \<in> set (rows t). ID x \<noteq> 0) \<and>
    GetReservedIP t podNS podName None = (r, None) \<longrightarrow>
      (\<exists>r'. GetReservedIP (saveIP now t podNS podName network dataDir ip None None None)
               podNS podName None = (r', None) \<and>
         (IP_To4 ip \<longrightarrow> IPv4 r' = IP_String ip \<and> IPv6 r' = IPv6 r) \<and>
         (\<not> IP_To4 ip \<longrightarrow> IPv6 r' = IP_String ip \<and> IPv4 r' = IPv4 r))) \<and>
   (name \<noteq> [] \<and> (\<forall>x \<in> set (rows u). ID x \<noteq> 0) \<and> IP_To4 ip4 \<and> \<not> IP_To4 ip6 \<longrightarrow>
      (\<exists>r'. GetReservedIP
               (saveIP now'' (saveIP now' u ns name net dir ip4 None None None)
                  ns name net dir ip6 None None None) ns name None = (r', None) \<and>
         IPv4 r' = IP_String ip4 \<and> IPv6 r' = IP_String ip6))"
proof (intro conjI impI)
  assume a: "podName \<noteq> [] \<and> (\<forall>x \<in> set (rows t). ID x \<noteq> 0) \<and>
    GetReservedIP t podNS podName None = (r, None)"
  then have nm: "podName \<noteq> []" and ids: "\<forall>x \<in> set (rows t). ID x \<noteq> 0"
    and g: "GetReservedIP t podNS podName None = (r, None)" by blast+
  from saveIP_then_get [OF nm ids, of now podNS network dataDir ip] g
  show "\<exists>r'. GetReservedIP (saveIP now t podNS podName network dataDir ip None None None)
               podNS podName None = (r', None) \<and>
         (IP_To4 ip \<longrightarrow> IPv4 r' = IP_String ip \<and> IPv6 r' = IPv6 r) \<and>
         (\<not> IP_To4 ip \<longrightarrow> IPv6 r' = IP_String ip \<and> IPv4 r' = IPv4 r)"
    by auto
next
  assume a: "name \<noteq> [] \<and> (\<forall>x \<in> set (rows u). ID x \<noteq> 0) \<and> IP_To4 ip4 \<and> \<not> IP_To4 ip6"
  then have nm: "name \<noteq> []" and ids: "\<forall>x \<in> set (rows u). ID x \<noteq> 0"
    and v4: "IP_To4 ip4" and v6: "\<not> IP_To4 ip6" by blast+
  let ?u1 = "saveIP now' u ns name net dir ip4 None None None"
  from saveIP_then_get [OF nm ids, of now' ns net dir ip4] v4
  obtain r1 where r1: "GetReservedIP ?u1 ns name None = (r1, None)" "IPv4 r1 = IP_String ip4"
    and ids1: "\<forall>x \<in> set (rows ?u1). ID x \<noteq> 0" by auto
  from saveIP_then_get [OF nm ids1, of now'' ns net dir ip6] v6 r1
  show "\<exists>r'. GetReservedIP (saveIP now'' ?u1 ns name net dir ip6 None None None) ns name None =
           (r', None) \<and> IPv4 r' = IP_String ip4 \<and> IPv6 r' = IP_String ip6"
    by auto
qed

theorem C9_saveIP_keeps_other_family_witness:
  "GetReservedIP \<lparr>rows = [\<lparr>ID = 1, Namespace = ''NS2'', Name = ''pod2'', Deleted = True,
        CreatedAt = 5, UpdatedAt = 6, IPv4 = ''10.10.10.2'', IPv6 = ''fd00::2''\<rparr>], lastID = 1\<rparr>
      ''NS2'' ''pod2'' None =
     (\<lparr>ID = 1, Namespace = ''NS2'', Name = ''pod2'', Deleted = True,
        CreatedAt = 5, UpdatedAt = 6, IPv4 = ''10.10.10.2'', IPv6 = ''fd00::2''\<rparr>, None) \<and>
   IPv4 (fst (GetReservedIP (saveIP 7 \<lparr>rows = [\<lparr>ID = 1, Namespace = ''NS2'', Name = ''pod2'',
        Deleted = True, CreatedAt = 5, UpdatedAt = 6, IPv4 = ''10.10.10.2'', IPv6 = ''fd00::2''\<rparr>],
        lastID = 1\<rparr> ''NS2'' ''pod2'' ''net'' [] (IP ''10.10.10.9'' True) None None None)
      ''NS2'' ''pod2'' None)) = ''10.10.10.9'' \<and>
   IPv6 (fst (GetReservedIP (saveIP 7 \<lparr>rows = [\<lparr>ID = 1, Namespace = ''NS2'', Name = ''pod2'',
        Deleted = True, CreatedAt = 5, UpdatedAt = 6, IPv4 = ''10.10.10.2'', IPv6 = ''fd00::2''\<rparr>],
        lastID = 1\<rparr> ''NS2'' ''pod2'' ''net'' [] (IP ''10.10.10.9'' True) None None None)
      ''NS2'' ''pod2'' None)) = ''fd00::2'' \<and>
   IPv4 (fst (GetReservedIP
      (saveIP 9 (saveIP 8 \<lparr>rows = [], lastID = 0\<rparr> ''NS1'' ''pod1'' ''net'' []
                   (IP ''10.10.10.1'' True) None None None)
         ''NS1'' ''pod1'' ''net'' [] (IP ''fd00::1'' False) None None None)
      ''NS1'' ''pod1'' None)) = ''10.10.10.1'' \<and>
   IPv6 (fst (GetReservedIP
      (saveIP 9 (saveIP 8 \<lparr>rows = [], lastID = 0\<rparr> ''NS1'' ''pod1'' ''net'' []
                   (IP ''10.10.10.1'' True) None None None)
         ''NS1'' ''pod1'' ''net'' [] (IP ''fd00::1'' False) None None None)
      ''NS1'' ''pod1'' None)) = ''fd00::1''"
proof -
  let ?r = "\<lparr>ID = 1, Namespace = ''NS2'', Name = ''pod2'', Deleted = True,
        CreatedAt = 5, UpdatedAt = 6, IPv4 = ''10.10.10.2'', IPv6 = ''fd00::2''\<rparr>"
  let ?t = "\<lparr>rows = [?r], lastID = 1\<rparr>"
  let ?u = "\<lparr>rows = [], lastID = 0\<rparr> :: ReservedIP table"
  have h1: "''pod2'' \<noteq> [] \<and> (\<forall>x \<in> set (rows ?t). ID x \<noteq> 0) \<and>
      GetReservedIP ?t ''NS2'' ''pod2'' None = (?r, None)"
    by (simp add: GetReservedIP_def Take_def)
  have h2: "''pod1'' \<noteq> [] \<and> (\<forall>x \<in> set (rows ?u). ID x \<noteq> 0) \<and>
      IP_To4 (IP ''10.10.10.1'' True) \<and> \<not> IP_To4 (IP ''fd00::1'' False)"
    by simp
  from C9_saveIP_keeps_other_family [where podName = "''pod2''" and t = ?t and podNS = "''NS2''"
      and r = ?r and now = 7 and network = "''net''" and dataDir = "[]" and ip = "IP ''10.10.10.9'' True"
      and name = "''pod1''" and u = ?u and ns = "''NS1''" and net = "''net''" and dir = "[]"
      and ?ip4.0 = "IP ''10.10.10.1'' True" and ?ip6.0 = "IP ''fd00::1'' False"
      and now' = 8 and now'' = 9] h1 h2
  show ?thesis by auto
qed

text \<open>
  C2, as stated, fails: \<open>GetIP\<close> calls \<open>Get\<close> once. The identity's sticky address
  10.10.10.2 is held by another owner, the forced allocation fails, and \<open>GetIP\<close>
  returns that failure, although an ordinary search from the same directory would have
  reserved 10.10.10.3.
\<close>

theorem C2_no_fallback_counterexample:
  "GetIP (Get_spec False ''1'' [IP ''10.10.10.2'' True, IP ''10.10.10.3'' True]) textIP True 7
     [(''10.10.10.2'', ''other'' @ LineBreak @ ''eth0'')]
     \<lparr>rows = [\<lparr>ID = 1, Namespace = ''NS2'', Name = ''pod2'', Deleted = False, CreatedAt = 5,
        UpdatedAt = 6, IPv4 = ''10.10.10.2'', IPv6 = []\<rparr>], lastID = 1\<rparr>
     ''net'' [] ''K8S_POD_NAMESPACE=NS2;K8S_POD_NAME=pod2'' ''c1'' ''eth0'' None noDBFaults =
     ([(''10.10.10.2'', ''other'' @ LineBreak @ ''eth0'')],
      \<lparr>rows = [\<lparr>ID = 1, Namespace = ''NS2'', Name = ''pod2'', Deleted = False, CreatedAt = 5,
        UpdatedAt = 6, IPv4 = ''10.10.10.2'', IPv6 = []\<rparr>], lastID = 1\<rparr>,
      Inl (ErrAlloc ''requested IP address is not available in range set'')) \<and>
   snd (Get_spec False ''1'' [IP ''10.10.10.2'' True, IP ''10.10.10.3'' True] ''c1'' ''eth0'' None
     [(''10.10.10.2'', ''other'' @ LineBreak @ ''eth0'')]) =
     Inr \<lparr>Address_IP = IP ''10.10.10.3'' True, Gateway = None\<rparr>"
  by code_simp

text \<open>
  C2, amended. When a sticky address is found for the identity and the allocation with
  that address as the forced candidate fails, whatever the allocator's \<open>Get\<close> is,
  \<open>GetIP\<close> returns that failure to the caller unchanged, with the directory as the
  failed attempt left it and the database as it was; it makes no second attempt.
\<close>

theorem C2_forced_failure_returned:
  assumes "ResolvePodNSAndNameFromEnvArgs envArgs = (podNS, podName, err)"
    and "podName \<noteq> []"
    and "getIP ParseIP isIPv4 t podNS podName network dataDir (lookupOpen flt) (lookupGet flt) = Some k"
    and "Get cid ifname (Some k) d = (d', Inl e)"
  shows "GetIP Get ParseIP isIPv4 now d t network dataDir envArgs cid ifname requestedIP flt =
           (d', t, Inl e)"
  using assms by (simp add: GetIP_def Let_def)

theorem C2_forced_failure_returned_witness:
  "ResolvePodNSAndNameFromEnvArgs ''K8S_POD_NAMESPACE=NS2;K8S_POD_NAME=pod2'' = (''NS2'', ''pod2'', None) \<and>
   ''pod2'' \<noteq> [] \<and>
   getIP textIP True
     \<lparr>rows = [\<lparr>ID = 1, Namespace = ''NS2'', Name = ''pod2'', Deleted = False, CreatedAt = 5,
        UpdatedAt = 6, IPv4 = ''10.10.10.2'', IPv6 = []\<rparr>], lastID = 1\<rparr>
     ''NS2'' ''pod2'' ''net'' [] (lookupOpen noDBFaults) (lookupGet noDBFaults) =
     Some (IP ''10.10.10.2'' True) \<and>
   Get_spec False ''1'' [IP ''10.10.10.2'' True, IP ''10.10.10.3'' True] ''c1'' ''eth0''
     (Some (IP ''10.10.10.2'' True)) [(''10.10.10.2'', ''other'' @ LineBreak @ ''eth0'')] =
     ([(''10.10.10.2'', ''other'' @ LineBreak @ ''eth0'')],
      Inl (ErrAlloc ''requested IP address is not available in range set'')) \<and>
   GetIP (Get_spec False ''1'' [IP ''10.10.10.2'' True, IP ''10.10.10.3'' True]) textIP True 7
     [(''10.10.10.2'', ''other'' @ LineBreak @ ''eth0'')]
     \<lparr>rows = [\<lparr>ID = 1, Namespace = ''NS2'', Name = ''pod2'', Deleted = False, CreatedAt = 5,
        UpdatedAt = 6, IPv4 = ''10.10.10.2'', IPv6 = []\<rparr>], lastID = 1\<rparr>
     ''net'' [] ''K8S_POD_NAMESPACE=NS2;K8S_POD_NAME=pod2'' ''c1'' ''eth0''
     (Some (IP ''10.10.10.9'' True)) noDBFaults =
     ([(''10.10.10.2'', ''other'' @ LineBreak @ ''eth0'')],
      \<lparr>rows = [\<lparr>ID = 1, Namespace = ''NS2'', Name = ''pod2'', Deleted = False, CreatedAt = 5,
        UpdatedAt = 6, IPv4 = ''10.10.10.2'', IPv6 = []\<rparr>], lastID = 1\<rparr>,
      Inl (ErrAlloc ''requested IP address is not available in range set''))"
proof -
  let ?t = "\<lparr>rows = [\<lparr>ID = 1, Namespace = ''NS2'', Name = ''pod2'', Deleted = False, CreatedAt = 5,
        UpdatedAt = 6, IPv4 = ''10.10.10.2'', IPv6 = []\<rparr>], lastID = 1\<rparr>"
  let ?d = "[(''10.10.10.2'', ''other'' @ LineBreak @ ''eth0'')]"
  let ?Get = "Get_spec False ''1'' [IP ''10.10.10.2'' True, IP ''10.10.10.3'' True]"
  have h1: "ResolvePodNSAndNameFromEnvArgs ''K8S_POD_NAMESPACE=NS2;K8S_POD_NAME=pod2'' =
      (''NS2'', ''pod2'', None)" by code_simp
  have h2: "''pod2'' \<noteq> []" by simp
  have h3: "getIP textIP True ?t ''NS2'' ''pod2'' ''net'' [] (lookupOpen noDBFaults) (lookupGet noDBFaults) =
      Some (IP ''10.10.10.2'' True)" by code_simp
  have h4: "?Get ''c1'' ''eth0'' (Some (IP ''10.10.10.2'' True)) ?d =
      (?d, Inl (ErrAlloc ''requested IP address is not available in range set''))" by code_simp
  from C2_forced_failure_returned [where Get = ?Get and ParseIP = textIP and ?isIPv4.0 = True
      and t = ?t and d = ?d and flt = noDBFaults and network = "''net''" and dataDir = "[]"
      and envArgs = "''K8S_POD_NAMESPACE=NS2;K8S_POD_NAME=pod2''" and cid = "''c1''"
      and ifname = "''eth0''" and now = 7 and requestedIP = "Some (IP ''10.10.10.9'' True)",
      OF h1 h2 h3 h4] h1 h2 h3 h4
  show ?thesis by simp
qed

lemma Take_fault: "Take zero t ns name (Some e) = (zero, Some e)"
  by (simp add: Take_def)

lemma Save_fault: "Save now t r (Some e) = (t, Some e)"
  by (simp add: Save_def)

lemma Delete_fault: "Delete t end (Some e) = (t, Some e)"
  by (simp add: Delete_def)

lemma getIP_lookup_fails:
  "fOpen \<noteq> None \<or> fGet \<noteq> None \<Longrightarrow>
   getIP ParseIP isIPv4 t podNS podName network dataDir fOpen fGet = None"
  by (auto simp: getIP_def OpenDB_def PluginHostLocal_def PluginBridge_def GetReservedIP_def
      Take_fault split: option.splits)

lemma getIP_no_record:
  "snd (GetReservedIP t podNS podName None) = Some ErrRecordNotFound \<Longrightarrow>
   getIP ParseIP isIPv4 t podNS podName network dataDir None None = None"
  by (auto simp: getIP_def OpenDB_def PluginHostLocal_def PluginBridge_def
      split: option.splits prod.splits)

lemma GetIP_result:
  assumes "ResolvePodNSAndNameFromEnvArgs envArgs = (podNS, podName, err)"
  shows "(fst (GetIP Get ParseIP isIPv4 now d t network dataDir envArgs cid ifname requestedIP flt),
          snd (snd (GetIP Get ParseIP isIPv4 now d t network dataDir envArgs cid ifname requestedIP flt))) =
         Get cid ifname
           (if podName = [] then requestedIP
            else case getIP ParseIP isIPv4 t podNS podName network dataDir
                        (lookupOpen flt) (lookupGet flt) of
                   None \<Rightarrow> requestedIP | Some a \<Rightarrow> Some a) d"
proof (cases "podName = []")
  case True
  with assms show ?thesis
    by (simp add: GetIP_def split: prod.splits)
next
  case False
  with assms show ?thesis
    by (simp add: GetIP_def Let_def split: prod.splits sum.splits)
qed

lemma markDeletedIP_fails:
  "fOpen \<noteq> None \<or> fGet \<noteq> None \<or> fSave \<noteq> None \<Longrightarrow>
   markDeletedIP now t network dataDir envArgs fOpen fGet fSave = t"
  by (auto simp: markDeletedIP_def OpenDB_def PluginHostLocal_def PluginBridge_def GetReservedIP_def
      ReserveIP_def Take_fault Save_fault split: option.splits prod.splits)

lemma ReleaseExpiredIPs_fails:
  "fOpen \<noteq> None \<or> fPurge \<noteq> None \<Longrightarrow>
   ReleaseExpiredIPs now t network dataDir expirationDays fOpen fPurge = t"
  by (auto simp: ReleaseExpiredIPs_def OpenDB_def PluginHostLocal_def PluginBridge_def
      PurgeExpiredIPs_def Delete_fault split: option.splits)

lemma getReservedMAC_lookup_fails:
  "fOpen \<noteq> None \<or> fGet \<noteq> None \<Longrightarrow>
   fst (getReservedMAC ParseMAC now t mac netName reservedMACDays envArgs fOpen fPurge fGet) = mac"
  by (auto simp: getReservedMAC_def OpenDB_def PluginHostLocal_def PluginBridge_def
      GetReservedMAC_def Take_fault Let_def zeroReservedMAC_def split: option.splits prod.splits sum.splits)

lemma PurgeExpiredMACs_fault:
  "fPurge \<noteq> None \<Longrightarrow> fst (PurgeExpiredMACs now t days fPurge) = t"
  by (auto simp: PurgeExpiredMACs_def Delete_fault)

lemma getReservedMAC_purge_fails:
  assumes "fPurge \<noteq> None"
  shows "getReservedMAC ParseMAC now t mac netName reservedMACDays envArgs fOpen fPurge fGet =
   getReservedMAC ParseMAC now t mac netName 0 envArgs fOpen fPurge fGet"
  unfolding getReservedMAC_def PurgeExpiredMACs_fault [OF assms] by simp

lemma saveReservedMAC_fails:
  "fOpen \<noteq> None \<or> fSave \<noteq> None \<Longrightarrow>
   saveReservedMAC now t network envArgs containerMAC fOpen fGet fSave = t"
  by (auto simp: saveReservedMAC_def OpenDB_def PluginHostLocal_def PluginBridge_def
      ReserveMAC_def Save_fault split: option.splits prod.splits)

text \<open>
  C3. Whatever database calls fail, what \<open>GetIP\<close> returns to its caller, the result
  and the directory, is what the flat-file allocation \<open>Get\<close> returns for the address
  the lookup chose: a database error is never the result. When \<open>OpenDB\<close> or
  \<open>GetReservedIP\<close> fails, the lookup \<open>getIP\<close> finds no address, as it does when the
  identity has no record, so the allocation proceeds from the requested address; the
  failures of \<open>saveIP\<close> have no part in the result. On the release path,
  \<open>markDeletedIP\<close> and \<open>ReleaseExpiredIPs\<close> return nothing and leave the table as it
  was when a call fails. In the bridge plugin, a failing \<open>OpenDB\<close> or \<open>GetReservedMAC\<close>
  leaves \<open>netConf.mac\<close> as it was, a failing \<open>PurgeExpiredMACs\<close> leaves the lookup to
  proceed as without a purge, and a failing \<open>OpenDB\<close> or \<open>ReserveMAC\<close> in
  \<open>saveReservedMAC\<close> leaves the table as it was.
\<close>

theorem C3_database_errors_not_propagated:
  "(ResolvePodNSAndNameFromEnvArgs envArgs = (podNS, podName, err) \<longrightarrow>
      (fst (GetIP Get ParseIP isIPv4 now d t network dataDir envArgs cid ifname requestedIP flt),
       snd (snd (GetIP Get ParseIP isIPv4 now d t network dataDir envArgs cid ifname requestedIP flt))) =
      Get cid ifname
        (if podName = [] then requestedIP
         else case getIP ParseIP isIPv4 t podNS podName network dataDir
                     (lookupOpen flt) (lookupGet flt) of
                None \<Rightarrow> requestedIP | Some a \<Rightarrow> Some a) d) \<and>
   (lookupOpen flt \<noteq> None \<or> lookupGet flt \<noteq> None \<longrightarrow>
      getIP ParseIP isIPv4 t podNS podName network dataDir (lookupOpen flt) (lookupGet flt) = None) \<and>
   (snd (GetReservedIP t podNS podName None) = Some ErrRecordNotFound \<longrightarrow>
      getIP ParseIP isIPv4 t podNS podName network dataDir None None = None) \<and>
   (fOpen \<noteq> None \<or> fGet \<noteq> None \<or> fSave \<noteq> None \<longrightarrow>
      markDeletedIP now t network dataDir envArgs fOpen fGet fSave = t) \<and>
   (fOpen \<noteq> None \<or> fPurge \<noteq> None \<longrightarrow>
      ReleaseExpiredIPs now t network dataDir expirationDays fOpen fPurge = t) \<and>
   (fOpen \<noteq> None \<or> fGet \<noteq> None \<longrightarrow>
      fst (getReservedMAC ParseMAC now u mac network expirationDays envArgs fOpen fPurge fGet) = mac) \<and>
   (fPurge \<noteq> None \<longrightarrow>
      getReservedMAC ParseMAC now u mac network expirationDays envArgs fOpen fPurge fGet =
      getReservedMAC ParseMAC now u mac network 0 envArgs fOpen fPurge fGet) \<and>
   (fOpen \<noteq> None \<or> fSave \<noteq> None \<longrightarrow>
      saveReservedMAC now u network envArgs containerMAC fOpen fGet fSave = u)"
proof (intro conjI impI)
  assume "ResolvePodNSAndNameFromEnvArgs envArgs = (podNS, podName, err)"
  then show "(fst (GetIP Get ParseIP isIPv4 now d t network dataDir envArgs cid ifname requestedIP flt),
       snd (snd (GetIP Get ParseIP isIPv4 now d t network dataDir envArgs cid ifname requestedIP flt))) =
      Get cid ifname
        (if podName = [] then requestedIP
         else case getIP ParseIP isIPv4 t podNS podName network dataDir
                     (lookupOpen flt) (lookupGet flt) of
                None \<Rightarrow> requestedIP | Some a \<Rightarrow> Some a) d"
    by (rule GetIP_result)
next
  assume "lookupOpen flt \<noteq> None \<or> lookupGet flt \<noteq> None"
  then show "getIP ParseIP isIPv4 t podNS podName network dataDir (lookupOpen flt) (lookupGet flt) = None"
    by (rule getIP_lookup_fails)
next
  assume "snd (GetReservedIP t podNS podName None) = Some ErrRecordNotFound"
  then show "getIP ParseIP isIPv4 t podNS podName network dataDir None None = None"
    by (rule getIP_no_record)
next
  assume "fOpen \<noteq> None \<or> fGet \<noteq> None \<or> fSave \<noteq> None"
  then show "markDeletedIP now t network dataDir envArgs fOpen fGet fSave = t"
    by (rule markDeletedIP_fails)
next
  assume "fOpen \<noteq> None \<or> fPurge \<noteq> None"
  then show "ReleaseExpiredIPs now t network dataDir expirationDays fOpen fPurge = t"
    by (rule ReleaseExpiredIPs_fails)
next
  assume "fOpen \<noteq> None \<or> fGet \<noteq> None"
  then show "fst (getReservedMAC ParseMAC now u mac network expirationDays envArgs fOpen fPurge fGet) = mac"
    by (rule getReservedMAC_lookup_fails)
next
  assume "fPurge \<noteq> None"
  then show "getReservedMAC ParseMAC now u mac network expirationDays envArgs fOpen fPurge fGet =
      getReservedMAC ParseMAC now u mac network 0 envArgs fOpen fPurge fGet"
    by (rule getReservedMAC_purge_fails)
next
  assume "fOpen \<noteq> None \<or> fSave \<noteq> None"
  then show "saveReservedMAC now u network envArgs containerMAC fOpen fGet fSave = u"
    by (rule saveReservedMAC_fails)
qed

theorem C3_database_errors_not_propagated_witness:
  "ResolvePodNSAndNameFromEnvArgs ''K8S_POD_NAMESPACE=NS2;K8S_POD_NAME=pod2'' = (''NS2'', ''pod2'', None) \<and>
   lookupGet \<lparr>lookupOpen = None, lookupGet = Some (ErrDB ''database is locked''), saveOpen = None,
      saveGet = None, saveSave = Some (ErrDB ''disk I/O error'')\<rparr> \<noteq> None \<and>
   snd (GetReservedIP \<lparr>rows = [], lastID = 0\<rparr> ''NS2'' ''pod2'' None) = Some ErrRecordNotFound \<and>
   getIP textIP True \<lparr>rows = [], lastID = 0\<rparr> ''NS2'' ''pod2'' ''net'' [] None
     (Some (ErrDB ''database is locked'')) = None \<and>
   getIP textIP True \<lparr>rows = [], lastID = 0\<rparr> ''NS2'' ''pod2'' ''net'' [] None None = None \<and>
   (fst (GetIP (Get_spec False ''1'' [IP ''10.10.10.2'' True, IP ''10.10.10.3'' True]) textIP True 7 []
       \<lparr>rows = [], lastID = 0\<rparr> ''net'' [] ''K8S_POD_NAMESPACE=NS2;K8S_POD_NAME=pod2'' ''c1'' ''eth0'' None
       \<lparr>lookupOpen = None, lookupGet = Some (ErrDB ''database is locked''), saveOpen = None,
        saveGet = None, saveSave = Some (ErrDB ''disk I/O error'')\<rparr>),
    snd (snd (GetIP (Get_spec False ''1'' [IP ''10.10.10.2'' True, IP ''10.10.10.3'' True]) textIP True 7 []
       \<lparr>rows = [], lastID = 0\<rparr> ''net'' [] ''K8S_POD_NAMESPACE=NS2;K8S_POD_NAME=pod2'' ''c1'' ''eth0'' None
       \<lparr>lookupOpen = None, lookupGet = Some (ErrDB ''database is locked''), saveOpen = None,
        saveGet = None, saveSave = Some (ErrDB ''disk I/O error'')\<rparr>))) =
     Get_spec False ''1'' [IP ''10.10.10.2'' True, IP ''10.10.10.3'' True] ''c1'' ''eth0'' None [] \<and>
   Get_spec False ''1'' [IP ''10.10.10.2'' True, IP ''10.10.10.3'' True] ''c1'' ''eth0'' None [] =
     ([(''10.10.10.2'', ''c1'' @ LineBreak @ ''eth0''), (''last_reserved_ip.1'', ''10.10.10.2'')],
      Inr \<lparr>Address_IP = IP ''10.10.10.2'' True, Gateway = None\<rparr>) \<and>
   markDeletedIP 7 \<lparr>rows = [], lastID = 0\<rparr> ''net'' [] ''K8S_POD_NAMESPACE=NS2;K8S_POD_NAME=pod2''
     (Some (ErrDB ''unable to open database file'')) None None = \<lparr>rows = [], lastID = 0\<rparr> \<and>
   ReleaseExpiredIPs 7 \<lparr>rows = [], lastID = 0\<rparr> ''net'' [] 3
     (Some (ErrDB ''unable to open database file'')) (Some (ErrDB ''database is locked'')) =
     \<lparr>rows = [], lastID = 0\<rparr> \<and>
   fst (getReservedMAC textBytes 7 \<lparr>rows = [], lastID = 0\<rparr> [] ''net'' 3
     ''K8S_POD_NAMESPACE=NS2;K8S_POD_NAME=pod2''
     (Some (ErrDB ''unable to open database file'')) (Some (ErrDB ''database is locked'')) None) = [] \<and>
   saveReservedMAC 7 \<lparr>rows = [], lastID = 0\<rparr> ''net'' ''K8S_POD_NAMESPACE=NS2;K8S_POD_NAME=pod2''
     ''02:42:af:a3:d8:01'' (Some (ErrDB ''unable to open database file'')) None None =
     \<lparr>rows = [], lastID = 0\<rparr>"
proof -
  let ?env = "''K8S_POD_NAMESPACE=NS2;K8S_POD_NAME=pod2''"
  let ?flt = "\<lparr>lookupOpen = None, lookupGet = Some (ErrDB ''database is locked''), saveOpen = None,
      saveGet = None, saveSave = Some (ErrDB ''disk I/O error'')\<rparr>"
  let ?t = "\<lparr>rows = [], lastID = 0\<rparr> :: ReservedIP table"
  let ?u = "\<lparr>rows = [], lastID = 0\<rparr> :: ReservedMAC table"
  let ?Get = "Get_spec False ''1'' [IP ''10.10.10.2'' True, IP ''10.10.10.3'' True]"
  let ?e = "Some (ErrDB ''unable to open database file'')"
  let ?p = "Some (ErrDB ''database is locked'')"
  have h1: "ResolvePodNSAndNameFromEnvArgs ?env = (''NS2'', ''pod2'', None)" by code_simp
  have h2: "lookupOpen ?flt \<noteq> None \<or> lookupGet ?flt \<noteq> None" by simp
  have h3: "snd (GetReservedIP ?t ''NS2'' ''pod2'' None) = Some ErrRecordNotFound"
    by (simp add: GetReservedIP_def Take_def)
  have h4: "?e \<noteq> None \<or> (None :: error option) \<noteq> None \<or> (None :: error option) \<noteq> None" by simp
  have h5: "?e \<noteq> None \<or> ?p \<noteq> None" by simp
  have h6: "?e \<noteq> None \<or> (None :: error option) \<noteq> None" by simp
  have h7: "?p \<noteq> None" by simp
  have g: "?Get ''c1'' ''eth0'' None [] =
     ([(''10.10.10.2'', ''c1'' @ LineBreak @ ''eth0''), (''last_reserved_ip.1'', ''10.10.10.2'')],
      Inr \<lparr>Address_IP = IP ''10.10.10.2'' True, Gateway = None\<rparr>)" by code_simp
  note c = C3_database_errors_not_propagated [where envArgs = ?env and podNS = "''NS2''"
      and podName = "''pod2''" and err = None and Get = ?Get and ParseIP = textIP and ?isIPv4.0 = True
      and now = 7 and d = "[]" and t = ?t and network = "''net''" and dataDir = "[]"
      and cid = "''c1''" and ifname = "''eth0''" and requestedIP = None and flt = ?flt
      and fOpen = ?e and fGet = None and fSave = None and fPurge = ?p and expirationDays = 3
      and ParseMAC = textBytes and u = ?u and mac = "[]" and containerMAC = "''02:42:af:a3:d8:01''"]
  from c h2 have e2: "getIP textIP True ?t ''NS2'' ''pod2'' ''net'' [] (lookupOpen ?flt) (lookupGet ?flt) = None"
    by blast
  from c h3 have e3: "getIP textIP True ?t ''NS2'' ''pod2'' ''net'' [] None None = None" by blast
  from c h1 have "(fst (GetIP ?Get textIP True 7 [] ?t ''net'' [] ?env ''c1'' ''eth0'' None ?flt),
      snd (snd (GetIP ?Get textIP True 7 [] ?t ''net'' [] ?env ''c1'' ''eth0'' None ?flt))) =
      ?Get ''c1'' ''eth0''
        (if ''pod2'' = [] then None
         else case getIP textIP True ?t ''NS2'' ''pod2'' ''net'' [] (lookupOpen ?flt) (lookupGet ?flt) of
                None \<Rightarrow> None | Some a \<Rightarrow> Some a) []"
    by blast
  then have e1: "(fst (GetIP ?Get textIP True 7 [] ?t ''net'' [] ?env ''c1'' ''eth0'' None ?flt),
      snd (snd (GetIP ?Get textIP True 7 [] ?t ''net'' [] ?env ''c1'' ''eth0'' None ?flt))) =
      ?Get ''c1'' ''eth0'' None []"
    unfolding e2 by simp
  from c h4 have m: "markDeletedIP 7 ?t ''net'' [] ?env ?e None None = ?t" by blast
  from c h5 have p: "ReleaseExpiredIPs 7 ?t ''net'' [] 3 ?e ?p = ?t" by blast
  from c h6 have l: "fst (getReservedMAC textBytes 7 ?u [] ''net'' 3 ?env ?e ?p None) = []" by blast
  from c h6 have s: "saveReservedMAC 7 ?u ''net'' ?env ''02:42:af:a3:d8:01'' ?e None None = ?u" by blast
  from e2 have e2': "getIP textIP True ?t ''NS2'' ''pod2'' ''net'' [] None
      (Some (ErrDB ''database is locked'')) = None" by simp
  from h1 h3 g e1 e2' e3 m p l s show ?thesis by simp
qed

end
